theory Spec2Isabelle
  imports Main
begin

section \<open>The command tree (cmd.h, as cmd.c reads it)\<close>

text \<open>
  Tokens (\<open>word_t\<close>) are kept as the strings \<open>get_word\<close> resolves them to; a
  pointer that may be NULL is an \<open>option\<close>. \<open>OP_OTHER\<close> stands for any operator tag
  that is none of the six \<open>parse_command\<close> tests for.
\<close>

datatype operator =
    OP_NONE
  | OP_SEQUENTIAL
  | OP_PARALLEL
  | OP_CONDITIONAL_ZERO
  | OP_CONDITIONAL_NZERO
  | OP_PIPE
  | OP_OTHER nat

record simple_command =
  verb :: string
  params :: "string list"
  inp :: "string option"
  out :: "string option"
  err :: "string option"
  io_flags :: int

datatype command =
  Command (op: operator) (scmd: "simple_command option")
          (cmd1: "command option") (cmd2: "command option")

section \<open>The process and the operating system\<close>

text \<open>
  The evaluator is followed in one process at a time. Every system call takes its
  return value from the world, at the process's own call counter; \<open>fork\<close> returning 0
  means that the path followed continues in the child. What a process did is kept in
  its trace, in order.
\<close>

datatype oflag = O_RDONLY | O_WRONLY | O_CREAT | O_TRUNC | O_APPEND

datatype event =
    EOpen string "oflag list" int
  | EClose int
  | EDup2 int int int
  | EChdir string int
  | EGetcwd bool
  | ESetenv string string int
  | EFork int
  | EWaitpid int int "int option"
  | EPipe int
  | EExecvp string "string list" int
  | EPrintf string

record world =
  ret :: "nat \<Rightarrow> int"
  wstat :: "nat \<Rightarrow> int"
  pfds :: "nat \<Rightarrow> int \<times> int"
  resolve :: "string \<Rightarrow> string \<Rightarrow> string"

record proc =
  cwd :: string
  env :: "string \<Rightarrow> string option"
  trace :: "event list"
  clock :: nat
  depth :: nat

text \<open>
  How a call ends in the process followed: it returns to its caller, the process
  ends through \<open>exit\<close>, its image is replaced by \<open>execvp\<close>, or it writes past the end
  of a fixed buffer (undefined behaviour in C).
\<close>

datatype 'a outcome = Return 'a | Exit int | Exec string "string list" | Overflow

definition STDIN_FILENO :: int where "STDIN_FILENO = 0"
definition STDOUT_FILENO :: int where "STDOUT_FILENO = 1"
definition STDERR_FILENO :: int where "STDERR_FILENO = 2"

definition NL :: string where "NL = [CHR 0x0A]"

definition emit :: "event \<Rightarrow> proc \<Rightarrow> proc" where
  "emit e p = p\<lparr>trace := trace p @ [e]\<rparr>"

definition tick :: "proc \<Rightarrow> proc" where
  "tick p = p\<lparr>clock := Suc (clock p)\<rparr>"

definition sys_printf :: "string \<Rightarrow> proc \<Rightarrow> proc" where
  "sys_printf msg p = emit (EPrintf msg) p"

definition sys_open :: "world \<Rightarrow> string \<Rightarrow> oflag list \<Rightarrow> proc \<Rightarrow> int \<times> proc" where
  "sys_open w path flags p =
     (let r = (if ret w (clock p) < 0 then - 1 else ret w (clock p))
      in (r, tick (emit (EOpen path flags r) p)))"

definition sys_close :: "int \<Rightarrow> proc \<Rightarrow> proc" where
  "sys_close fd p = tick (emit (EClose fd) p)"

definition sys_dup2 :: "world \<Rightarrow> int \<Rightarrow> int \<Rightarrow> proc \<Rightarrow> int \<times> proc" where
  "sys_dup2 w oldfd newfd p =
     (let r = (if ret w (clock p) < 0 then - 1 else newfd)
      in (r, tick (emit (EDup2 oldfd newfd r) p)))"

definition sys_chdir :: "world \<Rightarrow> string \<Rightarrow> proc \<Rightarrow> int \<times> proc" where
  "sys_chdir w path p =
     (if ret w (clock p) < 0 then (- 1, tick (emit (EChdir path (- 1)) p))
      else (0, tick (emit (EChdir path 0) (p\<lparr>cwd := resolve w (cwd p) path\<rparr>))))"

text \<open>\<open>getcwd(path, 1024)\<close>: NULL when the system refuses or the name and its
  terminator do not fit the buffer.\<close>

definition sys_getcwd :: "world \<Rightarrow> nat \<Rightarrow> proc \<Rightarrow> string option \<times> proc" where
  "sys_getcwd w buflen p =
     (if ret w (clock p) < 0 \<or> buflen < length (cwd p) + 1
      then (None, tick (emit (EGetcwd False) p))
      else (Some (cwd p), tick (emit (EGetcwd True) p)))"

definition sys_setenv :: "world \<Rightarrow> string \<Rightarrow> string \<Rightarrow> proc \<Rightarrow> int \<times> proc" where
  "sys_setenv w var val p =
     (if ret w (clock p) < 0 then (- 1, tick (emit (ESetenv var val (- 1)) p))
      else (0, tick (emit (ESetenv var val 0) (p\<lparr>env := (env p)(var \<mapsto> val)\<rparr>))))"

definition sys_fork :: "world \<Rightarrow> proc \<Rightarrow> int \<times> proc" where
  "sys_fork w p =
     (let r = ret w (clock p) in
      if r < 0 then (- 1, tick (emit (EFork (- 1)) p))
      else if r = 0 then (0, tick (emit (EFork 0) (p\<lparr>depth := Suc (depth p)\<rparr>)))
      else (r, tick (emit (EFork r) p)))"

text \<open>\<open>waitpid(pid, &status, 0)\<close>: the pid and the status of the terminated child,
  or -1 with no status written.\<close>

definition sys_waitpid :: "world \<Rightarrow> int \<Rightarrow> proc \<Rightarrow> int \<times> int option \<times> proc" where
  "sys_waitpid w pid p =
     (if ret w (clock p) < 0 then (- 1, None, tick (emit (EWaitpid pid (- 1) None) p))
      else (pid, Some (wstat w (clock p)),
            tick (emit (EWaitpid pid pid (Some (wstat w (clock p)))) p)))"

definition sys_pipe :: "world \<Rightarrow> proc \<Rightarrow> int \<times> (int \<times> int) \<times> proc" where
  "sys_pipe w p =
     (if ret w (clock p) < 0 then (- 1, (- 1, - 1), tick (emit (EPipe (- 1)) p))
      else (0, pfds w (clock p), tick (emit (EPipe 0) p)))"

text \<open>\<open>execvp\<close> returns only when it fails, and then -1.\<close>

definition sys_execvp :: "world \<Rightarrow> string \<Rightarrow> string list \<Rightarrow> proc \<Rightarrow> int option \<times> proc" where
  "sys_execvp w file argv p =
     (if ret w (clock p) < 0 then (Some (- 1), tick (emit (EExecvp file argv (- 1)) p))
      else (None, tick (emit (EExecvp file argv 0) p)))"

text \<open>The macros of \<open>sys/wait.h\<close>.\<close>

definition WIFEXITED :: "int \<Rightarrow> bool" where
  "WIFEXITED status = (status mod 128 = 0)"

definition WEXITSTATUS :: "int \<Rightarrow> int" where
  "WEXITSTATUS status = (status div 256) mod 256"

text \<open>The status \<open>waitpid\<close> reports for a child that ended with \<open>exit(code)\<close>.\<close>

definition exited_status :: "int \<Rightarrow> int" where
  "exited_status code = (code mod 256) * 256"

section \<open>The helpers of utils.h\<close>

text \<open>
  Modelled from the spec: \<open>get_word\<close> and \<open>get_argv\<close> are declared in utils.h, which is
  not among the sources. The spec gives them as "resolve token to string" and as the
  ordered argument sequence "including the verb as argument zero". A token is kept
  resolved, so \<open>get_word\<close> is the identity on a present token; on NULL its result is
  read by \<open>parse_simple\<close> only behind \<open>fdout >= 0\<close>, which is false then.
\<close>

definition get_word :: "string option \<Rightarrow> string" where
  "get_word t = (case t of None \<Rightarrow> [] | Some s \<Rightarrow> s)"

definition get_argv :: "simple_command \<Rightarrow> string list" where
  "get_argv s = verb s # params s"

section \<open>String functions of the C library\<close>

text \<open>\<open>strtok(s, "=")\<close>: skip leading delimiters; none left gives NULL; else the token
  runs to the next delimiter, and the scan resumes behind it.\<close>

definition strtok_eq :: "string \<Rightarrow> string option \<times> string" where
  "strtok_eq s =
     (let t = dropWhile (\<lambda>c. c = CHR ''='') s in
      if t = [] then (None, [])
      else (Some (takeWhile (\<lambda>c. c \<noteq> CHR ''='') t),
            drop 1 (dropWhile (\<lambda>c. c \<noteq> CHR ''='') t)))"

section \<open>cmd.c\<close>

text \<open>\<open>shell_cd\<close> (lines 23-55). \<open>dir\<close> is the first parameter token or NULL. The
  two \<open>strcat\<close> calls write into \<open>char path[1024]\<close> unchecked.\<close>

definition shell_cd :: "world \<Rightarrow> string option \<Rightarrow> proc \<Rightarrow> bool outcome \<times> proc" where
  "shell_cd w dir p =
     (case dir of
        None \<Rightarrow> (Return True, p)
      | Some word \<Rightarrow>
          (let (r, p1) = sys_chdir w word p in
           if r < 0 then
             (let (ret', p2) = sys_getcwd w 1024 p1 in
              case ret' of
                Some path \<Rightarrow>
                  if 1024 < length path + 1 + length word + 1 then (Overflow, p2)
                  else
                    (let (r', p3) = sys_chdir w (path @ ''/'' @ word) p2 in
                     if r' < 0
                     then (Return False, sys_printf (''Error changing directory.'' @ NL) p3)
                     else (Return True, p3))
              | None \<Rightarrow>
                  (Return False, sys_printf (''Error getting current directory.'' @ NL) p2))
           else (Return True, p1)))"

text \<open>\<open>shell_exit\<close> (lines 60-63); \<open>SHELL_EXIT\<close> is a macro of cmd.h, which is not among
  the sources: it is a parameter throughout.\<close>

definition shell_exit :: "int \<Rightarrow> int" where
  "shell_exit SHELL_EXIT = SHELL_EXIT"

text \<open>The block \<open>parse_simple\<close> repeats for \<open>s->in\<close>, \<open>s->out\<close> and \<open>s->err\<close> of a
  \<open>cd\<close> (lines 84-94, 96-106, 108-118): True when the caller goes on.\<close>

definition cd_redirect :: "world \<Rightarrow> string option \<Rightarrow> proc \<Rightarrow> bool \<times> proc" where
  "cd_redirect w target p =
     (case target of
        None \<Rightarrow> (True, p)
      | Some file \<Rightarrow>
          (let (fd, p1) = sys_open w file [O_WRONLY, O_CREAT, O_TRUNC] p in
           if fd < 0 then (False, sys_printf (''Open error'' @ NL) p1)
           else (True, sys_close fd p1)))"

text \<open>The child of an external command, lines 159-179: None when it goes on, else
  the value it returns.\<close>

definition child_stdin :: "world \<Rightarrow> simple_command \<Rightarrow> proc \<Rightarrow> int option \<times> proc" where
  "child_stdin w s p =
     (case inp s of
        None \<Rightarrow> (None, p)
      | Some input \<Rightarrow>
          (let (fdin, p1) = sys_open w input [O_RDONLY] p in
           if fdin < 0 then (Some 1, sys_printf (''Open error'' @ NL) p1)
           else
             (let (r, p2) = sys_dup2 w fdin STDIN_FILENO p1 in
              if r < 0 then (Some 1, sys_printf (''dup2 error'' @ NL) (sys_close fdin p2))
              else (None, p2))))"

text \<open>Lines 181-205: the early return value if any, and \<open>fdout\<close>.\<close>

definition child_stdout :: "world \<Rightarrow> simple_command \<Rightarrow> proc \<Rightarrow> int option \<times> int \<times> proc" where
  "child_stdout w s p =
     (case out s of
        None \<Rightarrow> (None, - 1, p)
      | Some output \<Rightarrow>
          (let (fdout, p1) =
                 (if io_flags s > 0 then sys_open w output [O_WRONLY, O_CREAT, O_APPEND] p
                  else sys_open w output [O_WRONLY, O_CREAT, O_TRUNC] p) in
           if fdout < 0 then (Some 1, fdout, sys_printf (''Open error'' @ NL) p1)
           else
             (let (r, p2) = sys_dup2 w fdout STDOUT_FILENO p1 in
              if r < 0 then (Some 1, fdout, sys_printf (''dup2 error'' @ NL) (sys_close fdout p2))
              else (None, fdout, p2))))"

text \<open>Lines 207-241.\<close>

definition child_stderr :: "world \<Rightarrow> simple_command \<Rightarrow> int \<Rightarrow> proc \<Rightarrow> int option \<times> proc" where
  "child_stderr w s fdout p =
     (case err s of
        None \<Rightarrow> (None, p)
      | Some error \<Rightarrow>
          (let output = get_word (out s);
               (fderr, p1) =
                 (if fdout \<ge> 0 \<and> output = error then (fdout, p)
                  else if io_flags s > 0 then sys_open w error [O_WRONLY, O_CREAT, O_APPEND] p
                  else sys_open w error [O_WRONLY, O_CREAT, O_TRUNC] p) in
           if \<not> (fdout \<ge> 0 \<and> output = error) \<and> fderr < 0
           then (Some 1, sys_printf (''Open error'' @ NL) p1)
           else
             (let (r, p2) = sys_dup2 w fderr STDERR_FILENO p1 in
              if r < 0 then (Some 1, sys_printf (''dup2 error'' @ NL) (sys_close fderr p2))
              else (None, p2))))"

text \<open>Lines 243-253.\<close>

definition child_exec :: "world \<Rightarrow> simple_command \<Rightarrow> proc \<Rightarrow> int outcome \<times> proc" where
  "child_exec w s p =
     (let word = verb s; argv = get_argv s in
      case sys_execvp w word argv p of
        (None, p1) \<Rightarrow> (Exec word argv, p1)
      | (Some r, p1) \<Rightarrow>
          if r < 0
          then (Exit r, sys_printf (''Execution failed for '' @ [CHR 0x27] @ word @ [CHR 0x27] @ NL) p1)
          else (Return r, p1))"

text \<open>Lines 154-254: what the process does in which \<open>fork\<close> returned 0.\<close>

definition simple_child :: "world \<Rightarrow> simple_command \<Rightarrow> proc \<Rightarrow> int outcome \<times> proc" where
  "simple_child w s p =
     (case child_stdin w s p of
        (Some v, p1) \<Rightarrow> (Return v, p1)
      | (None, p1) \<Rightarrow>
          (case child_stdout w s p1 of
             (Some v, fdout, p2) \<Rightarrow> (Return v, p2)
           | (None, fdout, p2) \<Rightarrow>
               (case child_stderr w s fdout p2 of
                  (Some v, p3) \<Rightarrow> (Return v, p3)
                | (None, p3) \<Rightarrow> child_exec w s p3)))"

text \<open>Lines 255-271: the parent waits.\<close>

definition simple_parent :: "world \<Rightarrow> int \<Rightarrow> proc \<Rightarrow> int outcome \<times> proc" where
  "simple_parent w pid p =
     (case sys_waitpid w pid p of
        (r, None, p1) \<Rightarrow> (Return 1, sys_printf (''waitpid error'' @ NL) p1)
      | (r, Some status, p1) \<Rightarrow>
          if WIFEXITED status then (Return (WEXITSTATUS status), p1)
          else (Return 1, sys_printf (''Child process did not terminate normally'' @ NL) p1))"

text \<open>\<open>parse_simple\<close> (lines 69-274). \<open>level\<close> and \<open>father\<close> are never read and are
  left out here and below.\<close>

definition parse_simple :: "world \<Rightarrow> int \<Rightarrow> simple_command option \<Rightarrow> proc \<Rightarrow> int outcome \<times> proc" where
  "parse_simple w SHELL_EXIT sc p =
     (case sc of
        None \<Rightarrow> (Return 1, p)
      | Some s \<Rightarrow>
          (let word = verb s in
           if word = ''cd'' then
             (case cd_redirect w (inp s) p of
                (False, p1) \<Rightarrow> (Return 1, p1)
              | (True, p1) \<Rightarrow>
                  (case cd_redirect w (out s) p1 of
                     (False, p2) \<Rightarrow> (Return 1, p2)
                   | (True, p2) \<Rightarrow>
                       (case cd_redirect w (err s) p2 of
                          (False, p3) \<Rightarrow> (Return 1, p3)
                        | (True, p3) \<Rightarrow>
                            (case shell_cd w (case params s of [] \<Rightarrow> None | d # _ \<Rightarrow> Some d) p3 of
                               (Return b, p4) \<Rightarrow> (Return (if b then 0 else 1), p4)
                             | (Exit n, p4) \<Rightarrow> (Exit n, p4)
                             | (Exec f a, p4) \<Rightarrow> (Exec f a, p4)
                             | (Overflow, p4) \<Rightarrow> (Overflow, p4)))))
           else if word = ''exit'' \<or> word = ''quit'' then (Return (shell_exit SHELL_EXIT), p)
           else if CHR ''='' \<in> set word then
             (case strtok_eq word of
                (None, rest) \<Rightarrow> (Return 1, p)
              | (Some var, rest) \<Rightarrow>
                  (case strtok_eq rest of
                     (None, rest') \<Rightarrow> (Return 1, p)
                   | (Some val, rest') \<Rightarrow>
                       (let (ret', p1) = sys_setenv w var val p in (Return ret', p1))))
           else
             (let (pid, p1) = sys_fork w p in
              if pid < 0 then (Return 1, sys_printf (''fork'' @ NL) p1)
              else if pid = 0 then simple_child w s p1
              else simple_parent w pid p1)))"

text \<open>A call that the same process follows up: \<open>f\<close> when it returned, nothing more
  when the process ended in it.\<close>

definition and_then :: "'a outcome \<Rightarrow> ('a \<Rightarrow> 'b outcome) \<Rightarrow> 'b outcome" where
  "and_then oc f =
     (case oc of
        Return v \<Rightarrow> f v
      | Exit n \<Rightarrow> Exit n
      | Exec file argv \<Rightarrow> Exec file argv
      | Overflow \<Rightarrow> Overflow)"

text \<open>\<open>parse_command\<close> (lines 405-464), \<open>run_in_parallel\<close> (lines 279-323) and
  \<open>run_on_pipe\<close> (lines 328-400). \<open>fd[READ]\<close> is the first of the pair, \<open>fd[WRITE]\<close>
  the second.\<close>

function (sequential) parse_command :: "world \<Rightarrow> int \<Rightarrow> command option \<Rightarrow> proc \<Rightarrow> int outcome \<times> proc"
and run_in_parallel ::
  "world \<Rightarrow> int \<Rightarrow> command option \<Rightarrow> command option \<Rightarrow> proc \<Rightarrow> bool outcome \<times> proc"
and run_on_pipe ::
  "world \<Rightarrow> int \<Rightarrow> command option \<Rightarrow> command option \<Rightarrow> proc \<Rightarrow> bool outcome \<times> proc"
where
  "parse_command w SHELL_EXIT None p = (Return SHELL_EXIT, p)"
| "parse_command w SHELL_EXIT (Some (Command opr s c1 c2)) p =
     (case opr of
        OP_NONE \<Rightarrow> parse_simple w SHELL_EXIT s p
      | OP_SEQUENTIAL \<Rightarrow>
          (case parse_command w SHELL_EXIT c1 p of
             (Return r, p1) \<Rightarrow> parse_command w SHELL_EXIT c2 p1
           | (oc, p1) \<Rightarrow> (oc, p1))
      | OP_PARALLEL \<Rightarrow>
          (case run_in_parallel w SHELL_EXIT c1 c2 p of
             (oc, p1) \<Rightarrow> (and_then oc (\<lambda>b. Return (if b = False then 1 else 0)), p1))
      | OP_CONDITIONAL_NZERO \<Rightarrow>
          (case parse_command w SHELL_EXIT c1 p of
             (Return r, p1) \<Rightarrow>
               if r \<noteq> 0 then parse_command w SHELL_EXIT c2 p1 else (Return r, p1)
           | (oc, p1) \<Rightarrow> (oc, p1))
      | OP_CONDITIONAL_ZERO \<Rightarrow>
          (case parse_command w SHELL_EXIT c1 p of
             (Return r, p1) \<Rightarrow>
               if r = 0 then parse_command w SHELL_EXIT c2 p1 else (Return r, p1)
           | (oc, p1) \<Rightarrow> (oc, p1))
      | OP_PIPE \<Rightarrow>
          (case run_on_pipe w SHELL_EXIT c1 c2 p of
             (oc, p1) \<Rightarrow> (and_then oc (\<lambda>b. Return (if b = False then 1 else 0)), p1))
      | OP_OTHER k \<Rightarrow> (Return SHELL_EXIT, p))"
| "run_in_parallel w SHELL_EXIT c1 c2 p =
     (let (pid_left, p1) = sys_fork w p in
      if pid_left < 0 then (Return False, sys_printf ''Probles with fork'' p1)
      else if pid_left = 0 then
        (case parse_command w SHELL_EXIT c1 p1 of (oc, p2) \<Rightarrow> (and_then oc Exit, p2))
      else
        (let (pid_right, p2) = sys_fork w p1 in
         if pid_right < 0 then (Return False, sys_printf ''Probles with fork'' p2)
         else if pid_right = 0 then
           (case parse_command w SHELL_EXIT c2 p2 of (oc, p3) \<Rightarrow> (and_then oc Exit, p3))
         else
           (case sys_waitpid w pid_left p2 of
              (r, None, p3) \<Rightarrow> (Return False, sys_printf (''waitpid error'' @ NL) p3)
            | (r, Some status, p3) \<Rightarrow>
                (case sys_waitpid w pid_right p3 of
                   (r', None, p4) \<Rightarrow> (Return False, sys_printf (''waitpid error'' @ NL) p4)
                 | (r', Some status', p4) \<Rightarrow> (Return True, p4)))))"
| "run_on_pipe w SHELL_EXIT c1 c2 p =
     (let (r, fd, p0) = sys_pipe w p in
      if r < 0 then (Return False, sys_printf ''Pipe error'' p0)
      else
        (let (pid_left, p1) = sys_fork w p0 in
         if pid_left < 0 then (Return False, sys_printf ''Probles with fork'' p1)
         else if pid_left = 0 then
           (let (d, p2) = sys_dup2 w (snd fd) STDOUT_FILENO (sys_close (fst fd) p1) in
            if d < 0
            then (Return False, sys_printf (''dup2 error'' @ NL) (sys_close (snd fd) p2))
            else (case parse_command w SHELL_EXIT c1 p2 of (oc, p3) \<Rightarrow> (and_then oc Exit, p3)))
         else
           (let (pid_right, p2) = sys_fork w p1 in
            if pid_right < 0 then (Return False, sys_printf ''Probles with fork'' p2)
            else if pid_right = 0 then
              (let (d, p3) = sys_dup2 w (fst fd) STDIN_FILENO (sys_close (snd fd) p2) in
               if d < 0
               then (Return False, sys_printf (''dup2 error'' @ NL) (sys_close (fst fd) p3))
               else (case parse_command w SHELL_EXIT c2 p3 of (oc, p4) \<Rightarrow> (and_then oc Exit, p4)))
            else
              (case sys_waitpid w pid_left (sys_close (snd fd) (sys_close (fst fd) p2)) of
                 (r1, None, p3) \<Rightarrow> (Return False, sys_printf (''waitpid error'' @ NL) p3)
               | (r1, Some status, p3) \<Rightarrow>
                   (case sys_waitpid w pid_right p3 of
                      (r2, None, p4) \<Rightarrow> (Return False, sys_printf (''waitpid error'' @ NL) p4)
                    | (r2, Some status', p4) \<Rightarrow>
                        if status' \<noteq> 0 then (Return False, p4) else (Return True, p4))))))"
  by pat_completeness auto
termination
  by (relation "measure (\<lambda>x. case x of
        Inl (w, se, c, p) \<Rightarrow> 2 * size_option size c
      | Inr (Inl (w, se, c1, c2, p)) \<Rightarrow> 2 * (size_option size c1 + size_option size c2) + 1
      | Inr (Inr (w, se, c1, c2, p)) \<Rightarrow> 2 * (size_option size c1 + size_option size c2) + 1)")
     auto

section \<open>Events a call adds to the trace\<close>

definition since :: "proc \<Rightarrow> proc \<Rightarrow> event list" where
  "since p p' = drop (length (trace p)) (trace p')"

definition grows :: "proc \<Rightarrow> proc \<Rightarrow> bool" where
  "grows p p' = (\<exists>evs. trace p' = trace p @ evs)"

text \<open>\<open>adds P p p'\<close>: \<open>p'\<close> has the trace of \<open>p\<close> followed by events that all satisfy
  \<open>P\<close>.\<close>

definition adds :: "(event \<Rightarrow> bool) \<Rightarrow> proc \<Rightarrow> proc \<Rightarrow> bool" where
  "adds P p p' = (\<exists>evs. trace p' = trace p @ evs \<and> list_all P evs)"

text \<open>The one open mode a command with these \<open>io_flags\<close> uses for writing, and the
  events that open a file in another way.\<close>

definition write_flags :: "simple_command \<Rightarrow> oflag list" where
  "write_flags s =
     (if io_flags s > 0 then [O_WRONLY, O_CREAT, O_APPEND] else [O_WRONLY, O_CREAT, O_TRUNC])"

fun opens_otherwise :: "simple_command \<Rightarrow> event \<Rightarrow> bool" where
  "opens_otherwise s (EOpen path fl r) = (fl \<noteq> [O_RDONLY] \<and> fl \<noteq> write_flags s)"
| "opens_otherwise s e = False"



text \<open>The events \<open>shell_cd\<close> can add, and those of the redirection blocks of a \<open>cd\<close>.\<close>

fun cd_event :: "event \<Rightarrow> bool" where
  "cd_event (EChdir d r) = True"
| "cd_event (EGetcwd b) = True"
| "cd_event (EPrintf msg) = True"
| "cd_event e = False"

fun cd_redirect_event :: "event \<Rightarrow> bool" where
  "cd_redirect_event (EOpen q fl r) = (fl = [O_WRONLY, O_CREAT, O_TRUNC])"
| "cd_redirect_event (EClose a) = True"
| "cd_redirect_event (EPrintf msg) = True"
| "cd_redirect_event e = False"

section \<open>Concrete processes, worlds and commands\<close>

text \<open>A fresh shell process; a world that answers the n-th system call with the n-th
  entry of \<open>rs\<close> (and 0 beyond), and gives the n-th call, when it is a \<open>waitpid\<close>, the
  n-th status of \<open>ss\<close>; a simple command without redirections.\<close>

definition p0 :: proc where
  "p0 = \<lparr>cwd = ''/home'', env = Map.empty, trace = [], clock = 0, depth = 0\<rparr>"

definition script :: "int list \<Rightarrow> int list \<Rightarrow> world" where
  "script rs ss =
     \<lparr>ret = (\<lambda>n. if n < length rs then rs ! n else 0),
      wstat = (\<lambda>n. if n < length ss then ss ! n else 0),
      pfds = (\<lambda>n. (3, 4)),
      resolve = (\<lambda>c d. d)\<rparr>"

definition simple :: "string \<Rightarrow> string list \<Rightarrow> command option" where
  "simple v ps = Some (Command OP_NONE
      (Some \<lparr>verb = v, params = ps, inp = None, out = None, err = None, io_flags = 0\<rparr>) None None)"

section \<open>Unfolding and the growth of the trace\<close>

lemmas sys_defs = sys_open_def sys_close_def sys_dup2_def sys_chdir_def sys_getcwd_def sys_setenv_def
  sys_fork_def sys_waitpid_def sys_pipe_def sys_execvp_def sys_printf_def emit_def tick_def

lemmas eval_defs = script_def simple_def p0_def parse_simple_def shell_exit_def simple_parent_def
  simple_child_def child_stdin_def child_stdout_def child_stderr_def child_exec_def
  WIFEXITED_def WEXITSTATUS_def and_then_def since_def get_word_def get_argv_def
  STDIN_FILENO_def STDOUT_FILENO_def STDERR_FILENO_def NL_def cd_redirect_def shell_cd_def strtok_eq_def

lemma cd_redirect_trace: "\<exists>evs. trace (snd (cd_redirect w t p)) = trace p @ evs"
  by (simp add: cd_redirect_def sys_defs Let_def split: option.splits)

lemma shell_cd_trace: "\<exists>evs. trace (snd (shell_cd w d p)) = trace p @ evs"
  by (simp add: shell_cd_def sys_defs Let_def split: option.splits)

lemma child_stdin_trace: "\<exists>evs. trace (snd (child_stdin w s p)) = trace p @ evs"
  by (simp add: child_stdin_def sys_defs Let_def split: option.splits)

lemma child_stdout_trace: "\<exists>evs. trace (snd (snd (child_stdout w s p))) = trace p @ evs"
  by (simp add: child_stdout_def sys_defs Let_def split: option.splits)

lemma child_stderr_trace: "\<exists>evs. trace (snd (child_stderr w s fdout p)) = trace p @ evs"
  by (simp add: child_stderr_def sys_defs Let_def split: option.splits)

lemma child_exec_trace: "\<exists>evs. trace (snd (child_exec w s p)) = trace p @ evs"
  by (simp add: child_exec_def sys_defs Let_def split: option.splits)

lemma simple_parent_trace: "\<exists>evs. trace (snd (simple_parent w pid p)) = trace p @ evs"
  by (simp add: simple_parent_def sys_defs Let_def split: option.splits)

lemma grows_refl: "grows p p"
  by (simp add: grows_def)

lemma grows_trans: "grows p p1 \<Longrightarrow> grows p1 p2 \<Longrightarrow> grows p p2"
  by (auto simp: grows_def)

lemma grows_sys:
  "grows p (snd (sys_open w path fl p))"
  "grows p (sys_close fd p)"
  "grows p (snd (sys_dup2 w a b p))"
  "grows p (snd (sys_fork w p))"
  "grows p (snd (snd (sys_waitpid w pid p)))"
  "grows p (snd (snd (sys_pipe w p)))"
  "grows p (sys_printf msg p)"
  by (simp_all add: grows_def sys_defs Let_def)

lemma grows_simple_child: "grows p (snd (simple_child w s p))"
proof -
  obtain a p1 where 1: "child_stdin w s p = (a, p1)" by (cases "child_stdin w s p")
  obtain b fd p2 where 2: "child_stdout w s p1 = (b, fd, p2)" by (cases "child_stdout w s p1")
  obtain c p3 where 3: "child_stderr w s fd p2 = (c, p3)" by (cases "child_stderr w s fd p2")
  have g1: "grows p p1" using child_stdin_trace [of w s p] 1 by (simp add: grows_def)
  have g2: "grows p1 p2" using child_stdout_trace [of w s p1] 2 by (simp add: grows_def)
  have g3: "grows p2 p3" using child_stderr_trace [of w s fd p2] 3 by (simp add: grows_def)
  have g4: "grows p3 (snd (child_exec w s p3))" using child_exec_trace [of w s p3] by (simp add: grows_def)
  show ?thesis
    using g1 grows_trans [OF g1 g2] grows_trans [OF grows_trans [OF g1 g2] g3]
      grows_trans [OF grows_trans [OF grows_trans [OF g1 g2] g3] g4]
    by (simp add: simple_child_def 1 2 3 split: option.splits)
qed

lemma grows_parse_simple: "grows p (snd (parse_simple w se sc p))"
proof (cases sc)
  case None
  then show ?thesis by (simp add: parse_simple_def grows_refl)
next
  case (Some s)
  obtain b1 p1 where 1: "cd_redirect w (inp s) p = (b1, p1)" by (cases "cd_redirect w (inp s) p")
  obtain b2 p2 where 2: "cd_redirect w (out s) p1 = (b2, p2)" by (cases "cd_redirect w (out s) p1")
  obtain b3 p3 where 3: "cd_redirect w (err s) p2 = (b3, p3)" by (cases "cd_redirect w (err s) p2")
  have g1: "grows p p1" using cd_redirect_trace [of w "inp s" p] 1 by (simp add: grows_def)
  have g2: "grows p1 p2" using cd_redirect_trace [of w "out s" p1] 2 by (simp add: grows_def)
  have g3: "grows p2 p3" using cd_redirect_trace [of w "err s" p2] 3 by (simp add: grows_def)
  have g4: "grows p3 (snd (shell_cd w d p3))" for d
    using shell_cd_trace [of w d p3] by (simp add: grows_def)
  have cd: "grows p (snd (shell_cd w d p3))" for d
    using grows_trans [OF grows_trans [OF grows_trans [OF g1 g2] g3] g4] .
  have f: "grows p (snd (sys_fork w p))" by (rule grows_sys)
  have se: "grows p (snd (sys_setenv w a b p))" for a b
    by (simp add: grows_def sys_defs)
  have ch: "grows p (snd (simple_child w s (snd (sys_fork w p))))"
    using grows_trans [OF f grows_simple_child] .
  have pa: "grows p (snd (simple_parent w pid (snd (sys_fork w p))))" for pid
    using grows_trans [OF f] simple_parent_trace [of w pid "snd (sys_fork w p)"]
    by (simp add: grows_def)
  have pr: "grows p (sys_printf m (snd (sys_fork w p)))" for m
    using grows_trans [OF f grows_sys(7)] .
  show ?thesis
    using Some g1 grows_trans [OF g1 g2] grows_trans [OF grows_trans [OF g1 g2] g3] cd [of None]
      cd se ch pa pr grows_refl [of p]
    by (simp add: parse_simple_def 1 2 3 Let_def split_beta split: option.splits bool.splits list.splits outcome.splits prod.splits)
qed

lemma grows_parse_command:
  "grows p (snd (parse_command w se c p))"
  "grows p (snd (run_in_parallel w se c1 c2 p))"
  "grows p (snd (run_on_pipe w se c1 c2 p))"
proof (induction w se c p and w se c1 c2 p and w se c1 c2 p
    rule: parse_command_run_in_parallel_run_on_pipe.induct)
  case (1 w SHELL_EXIT p)
  show ?case by (simp add: grows_refl)
next
  case (2 w SHELL_EXIT opr s c1 c2 p)
  show ?case
  proof (cases opr)
    case OP_NONE
    then show ?thesis by (simp add: grows_parse_simple)
  next
    case OP_SEQUENTIAL
    obtain oc p1 where l: "parse_command w SHELL_EXIT c1 p = (oc, p1)"
      by (cases "parse_command w SHELL_EXIT c1 p")
    have g1: "grows p p1" using "2.IH"(1) [OF OP_SEQUENTIAL] l by simp
    show ?thesis
    proof (cases oc)
      case (Return r)
      have "grows p1 (snd (parse_command w SHELL_EXIT c2 p1))"
        using "2.IH"(2) [OF OP_SEQUENTIAL l [symmetric] Return] .
      then show ?thesis using g1 OP_SEQUENTIAL l Return by (simp add: grows_trans)
    qed (use g1 OP_SEQUENTIAL l in simp_all)
  next
    case OP_PARALLEL
    then show ?thesis using "2.IH"(3) by (simp add: split_beta)
  next
    case OP_CONDITIONAL_ZERO
    obtain oc p1 where l: "parse_command w SHELL_EXIT c1 p = (oc, p1)"
      by (cases "parse_command w SHELL_EXIT c1 p")
    have g1: "grows p p1" using "2.IH"(4) [OF OP_CONDITIONAL_ZERO] l by simp
    show ?thesis
    proof (cases oc)
      case (Return r)
      have "r = 0 \<Longrightarrow> grows p1 (snd (parse_command w SHELL_EXIT c2 p1))"
        using "2.IH"(5) [OF OP_CONDITIONAL_ZERO l [symmetric] Return] .
      then show ?thesis using g1 OP_CONDITIONAL_ZERO l Return by (auto simp: grows_trans)
    qed (use g1 OP_CONDITIONAL_ZERO l in simp_all)
  next
    case OP_CONDITIONAL_NZERO
    obtain oc p1 where l: "parse_command w SHELL_EXIT c1 p = (oc, p1)"
      by (cases "parse_command w SHELL_EXIT c1 p")
    have g1: "grows p p1" using "2.IH"(6) [OF OP_CONDITIONAL_NZERO] l by simp
    show ?thesis
    proof (cases oc)
      case (Return r)
      have "r \<noteq> 0 \<Longrightarrow> grows p1 (snd (parse_command w SHELL_EXIT c2 p1))"
        using "2.IH"(7) [OF OP_CONDITIONAL_NZERO l [symmetric] Return] .
      then show ?thesis using g1 OP_CONDITIONAL_NZERO l Return by (auto simp: grows_trans)
    qed (use g1 OP_CONDITIONAL_NZERO l in simp_all)
  next
    case OP_PIPE
    then show ?thesis using "2.IH"(8) by (simp add: split_beta)
  next
    case (OP_OTHER k)
    then show ?thesis by (simp add: grows_refl)
  qed
next
  case (3 w SHELL_EXIT c1 c2 p)
  obtain l p1 where f1: "sys_fork w p = (l, p1)" by (cases "sys_fork w p")
  obtain r p2 where f2: "sys_fork w p1 = (r, p2)" by (cases "sys_fork w p1")
  have g1: "grows p p1" using grows_sys(4) [of p w] f1 by simp
  have g2: "grows p p2" using grows_trans [OF g1] grows_sys(4) [of p1 w] f2 by simp
  have a: "l = 0 \<Longrightarrow> grows p (snd (parse_command w SHELL_EXIT c1 p1))"
    using "3.IH"(1) [OF refl f1 [symmetric]] grows_trans [OF g1] by simp
  have b: "\<not> l < 0 \<Longrightarrow> l \<noteq> 0 \<Longrightarrow> r = 0 \<Longrightarrow> grows p (snd (parse_command w SHELL_EXIT c2 p2))"
    using "3.IH"(2) [OF refl f1 [symmetric] _ _ refl f2 [symmetric]] grows_trans [OF g2] by simp
  have c: "grows p (snd (snd (sys_waitpid w l p2)))"
    using grows_trans [OF g2 grows_sys(5)] .
  have d: "grows p (snd (snd (sys_waitpid w r (snd (snd (sys_waitpid w l p2))))))"
    using grows_trans [OF c grows_sys(5)] .
  have pr: "grows p q \<Longrightarrow> grows p (sys_printf m q)" for q m
    using grows_trans [OF _ grows_sys(7)] .
  show ?case
    using a b c d pr g1 g2
    by (auto simp: f1 f2 split_beta Let_def split: option.splits prod.splits)
next
  case (4 w SHELL_EXIT c1 c2 p)
  obtain r0 fd p0 where pi: "sys_pipe w p = (r0, fd, p0)" by (cases "sys_pipe w p")
  obtain l p1 where f1: "sys_fork w p0 = (l, p1)" by (cases "sys_fork w p0")
  obtain r p2 where f2: "sys_fork w p1 = (r, p2)" by (cases "sys_fork w p1")
  obtain d1 q1 where d1: "sys_dup2 w (snd fd) STDOUT_FILENO (sys_close (fst fd) p1) = (d1, q1)"
    by (cases "sys_dup2 w (snd fd) STDOUT_FILENO (sys_close (fst fd) p1)")
  obtain d2 q2 where d2: "sys_dup2 w (fst fd) STDIN_FILENO (sys_close (snd fd) p2) = (d2, q2)"
    by (cases "sys_dup2 w (fst fd) STDIN_FILENO (sys_close (snd fd) p2)")
  have g0: "grows p p0" using grows_sys(6) [of p w] pi by simp
  have g1: "grows p p1" using grows_trans [OF g0] grows_sys(4) [of p0 w] f1 by simp
  have g2: "grows p p2" using grows_trans [OF g1] grows_sys(4) [of p1 w] f2 by simp
  have h1: "grows p q1"
  proof -
    have "grows (sys_close (fst fd) p1) q1"
      using grows_sys(3) [of "sys_close (fst fd) p1" w "snd fd" STDOUT_FILENO] d1 by simp
    then show ?thesis using grows_trans [OF grows_trans [OF g1 grows_sys(2)]] by blast
  qed
  have h2: "grows p q2"
  proof -
    have "grows (sys_close (snd fd) p2) q2"
      using grows_sys(3) [of "sys_close (snd fd) p2" w "fst fd" STDIN_FILENO] d2 by simp
    then show ?thesis using grows_trans [OF grows_trans [OF g2 grows_sys(2)]] by blast
  qed
  have a: "\<not> r0 < 0 \<Longrightarrow> l = 0 \<Longrightarrow> \<not> d1 < 0 \<Longrightarrow> grows p (snd (parse_command w SHELL_EXIT c1 q1))"
    using "4.IH"(1) [OF refl pi [symmetric] refl _ refl f1 [symmetric] _ _ refl d1 [symmetric]]
      grows_trans [OF h1] by simp
  have b: "\<not> r0 < 0 \<Longrightarrow> \<not> l < 0 \<Longrightarrow> l \<noteq> 0 \<Longrightarrow> r = 0 \<Longrightarrow> \<not> d2 < 0 \<Longrightarrow>
      grows p (snd (parse_command w SHELL_EXIT c2 q2))"
    using "4.IH"(2) [OF refl pi [symmetric] refl _ refl f1 [symmetric] _ _ refl f2 [symmetric] _ _
        refl d2 [symmetric]] grows_trans [OF h2] by simp
  have cl: "grows p (sys_close (snd fd) (sys_close (fst fd) p2))"
    using grows_trans [OF grows_trans [OF g2 grows_sys(2)] grows_sys(2)] .
  have c: "grows p (snd (snd (sys_waitpid w l (sys_close (snd fd) (sys_close (fst fd) p2)))))"
    using grows_trans [OF cl grows_sys(5)] .
  have d: "grows p (snd (snd (sys_waitpid w r
      (snd (snd (sys_waitpid w l (sys_close (snd fd) (sys_close (fst fd) p2))))))))"
    using grows_trans [OF c grows_sys(5)] .
  have pr: "grows p q \<Longrightarrow> grows p (sys_printf m q)" for q m
    using grows_trans [OF _ grows_sys(7)] .
  have clq: "grows p q \<Longrightarrow> grows p (sys_close x q)" for q x
    using grows_trans [OF _ grows_sys(2)] .
  show ?case
    using a b c d pr clq g0 g1 g2 h1 h2
    by (auto simp: pi f1 f2 d1 d2 split_beta Let_def split: option.splits prod.splits)
qed

lemma and_then_Exit_then: "and_then (and_then oc Exit) f \<noteq> Return v"
  by (cases oc) (simp_all add: and_then_def)

lemma since_child:
  assumes "trace p1 = trace p @ pre" and "grows p1 p2"
  shows "\<exists>evs. since p p2 = pre @ evs"
  using assms by (auto simp: grows_def since_def)

section \<open>Null and unknown nodes\<close>

text \<open>
  C9. \<open>parse_command\<close> on a NULL node, and on a node whose operator tag is none of the
  six it knows, returns \<open>SHELL_EXIT\<close> and does nothing else.
\<close>

theorem parse_command_null_or_unknown:
  "parse_command w SHELL_EXIT None p = (Return SHELL_EXIT, p) \<and>
   parse_command w SHELL_EXIT (Some (Command (OP_OTHER k) s c1 c2)) p = (Return SHELL_EXIT, p)"
  by simp

section \<open>The terminate sentinel under Sequential and the two Conditionals\<close>




section \<open>Parallel\<close>

lemma parallel_zero_iff:
  "(fst (parse_command w SHELL_EXIT (Some (Command OP_PARALLEL s c1 c2)) p) = Return 0) =
     (\<exists>l r s1 s2. 0 < l \<and> 0 < r \<and>
        since p (snd (parse_command w SHELL_EXIT (Some (Command OP_PARALLEL s c1 c2)) p)) =
          [EFork l, EFork r, EWaitpid l l (Some s1), EWaitpid r r (Some s2)])"
proof -
  obtain l p1 where f1: "sys_fork w p = (l, p1)" by (cases "sys_fork w p")
  obtain r p2 where f2: "sys_fork w p1 = (r, p2)" by (cases "sys_fork w p1")
  consider (fail) "l < 0" | (child) "l = 0" | (parent) "0 < l" by linarith
  then show ?thesis
  proof cases
    case fail
    then show ?thesis using f1
      by (auto simp: and_then_def sys_defs since_def Let_def split: if_splits)
  next
    case child
    have t1: "trace p1 = trace p @ [EFork 0]"
      using f1 child by (auto simp: sys_defs Let_def split: if_splits)
    obtain evs where "since p (snd (parse_command w SHELL_EXIT c1 p1)) = [EFork 0] @ evs"
      using since_child [OF t1 grows_parse_command(1)] by blast
    then show ?thesis using child f1 by (auto simp: split_beta and_then_Exit_then)
  next
    case parent
    note l = parent
    have t0: "trace p1 = trace p @ [EFork l]"
      using f1 l by (auto simp: sys_defs Let_def split: if_splits)
    consider (fail2) "r < 0" | (child2) "r = 0" | (parent2) "0 < r" by linarith
    then show ?thesis
    proof cases
      case fail2
      then show ?thesis using l f1 f2
        by (auto simp: and_then_def sys_defs since_def Let_def split: if_splits)
    next
      case child2
      have t1: "trace p2 = trace p @ [EFork l, EFork 0]"
        using f2 child2 t0 by (auto simp: sys_defs Let_def split: if_splits)
      obtain evs where "since p (snd (parse_command w SHELL_EXIT c2 p2)) = [EFork l, EFork 0] @ evs"
        using since_child [OF t1 grows_parse_command(1)] by blast
      then show ?thesis using child2 l f1 f2
        by (auto simp: split_beta and_then_Exit_then)
    next
      case parent2
      then show ?thesis using l f1 f2
        by (auto simp: split_beta and_then_def sys_defs since_def Let_def split: if_splits)
    qed
  qed
qed

lemma parallel_returns:
  assumes "fst (parse_command w SHELL_EXIT (Some (Command OP_PARALLEL s c1 c2)) p) = Return v"
  shows "ret w (clock p) \<noteq> 0 \<and> (0 < ret w (clock p) \<longrightarrow> ret w (Suc (clock p)) \<noteq> 0)"
  using assms
  by (auto simp: split_beta and_then_Exit_then sys_defs Let_def split: if_splits)

lemma parallel_parent:
  assumes "ret w (clock p) \<noteq> 0" and "0 < ret w (clock p) \<longrightarrow> ret w (Suc (clock p)) \<noteq> 0"
  shows "fst (parse_command (w\<lparr>wstat := f\<rparr>) SHELL_EXIT (Some (Command OP_PARALLEL s c1 c2)) p) =
         fst (parse_command w SHELL_EXIT (Some (Command OP_PARALLEL s c1 c2)) p)"
  using assms
  by (auto simp: split_beta and_then_def sys_defs Let_def split: if_splits)

lemma parallel_first_fork_fails:
  assumes "ret w (clock p) < 0"
  shows "fst (parse_command w SHELL_EXIT (Some (Command OP_PARALLEL s c1 c2)) p) = Return 1 \<and>
         since p (snd (parse_command w SHELL_EXIT (Some (Command OP_PARALLEL s c1 c2)) p)) =
           [EFork (- 1), EPrintf ''Probles with fork'']"
  using assms by (simp add: and_then_def sys_defs since_def Let_def)

lemma parallel_failures:
  "(0 < ret w (clock p) \<and> ret w (Suc (clock p)) < 0 \<longrightarrow>
      fst (parse_command w SHELL_EXIT (Some (Command OP_PARALLEL s c1 c2)) p) = Return 1 \<and>
      since p (snd (parse_command w SHELL_EXIT (Some (Command OP_PARALLEL s c1 c2)) p)) =
        [EFork (ret w (clock p)), EFork (- 1), EPrintf ''Probles with fork'']) \<and>
   (0 < ret w (clock p) \<and> 0 < ret w (Suc (clock p)) \<and> ret w (Suc (Suc (clock p))) < 0 \<longrightarrow>
      fst (parse_command w SHELL_EXIT (Some (Command OP_PARALLEL s c1 c2)) p) = Return 1 \<and>
      since p (snd (parse_command w SHELL_EXIT (Some (Command OP_PARALLEL s c1 c2)) p)) =
        [EFork (ret w (clock p)), EFork (ret w (Suc (clock p))),
         EWaitpid (ret w (clock p)) (- 1) None, EPrintf (''waitpid error'' @ NL)]) \<and>
   (0 < ret w (clock p) \<and> 0 < ret w (Suc (clock p)) \<and> 0 \<le> ret w (Suc (Suc (clock p))) \<and>
    ret w (Suc (Suc (Suc (clock p)))) < 0 \<longrightarrow>
      fst (parse_command w SHELL_EXIT (Some (Command OP_PARALLEL s c1 c2)) p) = Return 1 \<and>
      since p (snd (parse_command w SHELL_EXIT (Some (Command OP_PARALLEL s c1 c2)) p)) =
        [EFork (ret w (clock p)), EFork (ret w (Suc (clock p))),
         EWaitpid (ret w (clock p)) (ret w (clock p)) (Some (wstat w (Suc (Suc (clock p))))),
         EWaitpid (ret w (Suc (clock p))) (- 1) None, EPrintf (''waitpid error'' @ NL)])"
  by (simp add: and_then_def sys_defs since_def Let_def)

text \<open>
  A left branch is started as process 5 and the second \<open>fork\<close> fails: the node returns
  1 with no \<open>waitpid\<close>, while process 5 runs. Both branches are started, as 5 and 6, and
  the first \<open>waitpid\<close> fails: the node returns 1 without waiting for process 6.
\<close>

theorem parallel_not_joined_counterexample:
  "parse_command (script [5, - 1] []) (- 100)
      (Some (Command OP_PARALLEL None (simple ''sleep'' [''9'']) (simple ''true'' []))) p0 =
     (Return 1, p0\<lparr>trace := [EFork 5, EFork (- 1), EPrintf ''Probles with fork''], clock := 2\<rparr>) \<and>
   parse_command (script [5, 6, - 1] []) (- 100)
      (Some (Command OP_PARALLEL None (simple ''sleep'' [''9'']) (simple ''true'' []))) p0 =
     (Return 1, p0\<lparr>trace := [EFork 5, EFork 6, EWaitpid 5 (- 1) None,
                               EPrintf (''waitpid error'' @ NL)], clock := 3\<rparr>)"
  by (simp add: eval_defs sys_defs Let_def)

text \<open>
  C4, as amended. A Parallel node evaluates to 0 exactly when what it did is: fork the
  left branch, fork the right branch, wait for the left one, wait for the right one,
  all four succeeding (a \<open>waitpid\<close> with options 0 that succeeds has seen its child
  terminate). The status it returns is the same whatever statuses the system reports
  for terminated children. When the first \<open>fork\<close> fails the node returns 1 and makes
  no second \<open>fork\<close>. When the second \<open>fork\<close> fails it returns 1 without waiting for
  the left branch; when the first \<open>waitpid\<close> fails it returns 1 without waiting for
  the right branch; when the second \<open>waitpid\<close> fails it returns 1.
\<close>

theorem parallel_status:
  "((fst (parse_command w SHELL_EXIT (Some (Command OP_PARALLEL s c1 c2)) p) = Return 0) =
     (\<exists>l r s1 s2. 0 < l \<and> 0 < r \<and>
        since p (snd (parse_command w SHELL_EXIT (Some (Command OP_PARALLEL s c1 c2)) p)) =
          [EFork l, EFork r, EWaitpid l l (Some s1), EWaitpid r r (Some s2)])) \<and>
   (\<forall>v f. fst (parse_command w SHELL_EXIT (Some (Command OP_PARALLEL s c1 c2)) p) = Return v \<longrightarrow>
      fst (parse_command (w\<lparr>wstat := f\<rparr>) SHELL_EXIT (Some (Command OP_PARALLEL s c1 c2)) p) = Return v) \<and>
   (ret w (clock p) < 0 \<longrightarrow>
      fst (parse_command w SHELL_EXIT (Some (Command OP_PARALLEL s c1 c2)) p) = Return 1 \<and>
      since p (snd (parse_command w SHELL_EXIT (Some (Command OP_PARALLEL s c1 c2)) p)) =
        [EFork (- 1), EPrintf ''Probles with fork'']) \<and>
   (0 < ret w (clock p) \<and> ret w (Suc (clock p)) < 0 \<longrightarrow>
      fst (parse_command w SHELL_EXIT (Some (Command OP_PARALLEL s c1 c2)) p) = Return 1 \<and>
      since p (snd (parse_command w SHELL_EXIT (Some (Command OP_PARALLEL s c1 c2)) p)) =
        [EFork (ret w (clock p)), EFork (- 1), EPrintf ''Probles with fork'']) \<and>
   (0 < ret w (clock p) \<and> 0 < ret w (Suc (clock p)) \<and> ret w (Suc (Suc (clock p))) < 0 \<longrightarrow>
      fst (parse_command w SHELL_EXIT (Some (Command OP_PARALLEL s c1 c2)) p) = Return 1 \<and>
      since p (snd (parse_command w SHELL_EXIT (Some (Command OP_PARALLEL s c1 c2)) p)) =
        [EFork (ret w (clock p)), EFork (ret w (Suc (clock p))),
         EWaitpid (ret w (clock p)) (- 1) None, EPrintf (''waitpid error'' @ NL)]) \<and>
   (0 < ret w (clock p) \<and> 0 < ret w (Suc (clock p)) \<and> 0 \<le> ret w (Suc (Suc (clock p))) \<and>
    ret w (Suc (Suc (Suc (clock p)))) < 0 \<longrightarrow>
      fst (parse_command w SHELL_EXIT (Some (Command OP_PARALLEL s c1 c2)) p) = Return 1 \<and>
      since p (snd (parse_command w SHELL_EXIT (Some (Command OP_PARALLEL s c1 c2)) p)) =
        [EFork (ret w (clock p)), EFork (ret w (Suc (clock p))),
         EWaitpid (ret w (clock p)) (ret w (clock p)) (Some (wstat w (Suc (Suc (clock p))))),
         EWaitpid (ret w (Suc (clock p))) (- 1) None, EPrintf (''waitpid error'' @ NL)])"
proof -
  have a: "(fst (parse_command w SHELL_EXIT (Some (Command OP_PARALLEL s c1 c2)) p) = Return 0) =
     (\<exists>l r s1 s2. 0 < l \<and> 0 < r \<and>
        since p (snd (parse_command w SHELL_EXIT (Some (Command OP_PARALLEL s c1 c2)) p)) =
          [EFork l, EFork r, EWaitpid l l (Some s1), EWaitpid r r (Some s2)])"
    by (rule parallel_zero_iff)
  have b: "fst (parse_command (w\<lparr>wstat := f\<rparr>) SHELL_EXIT (Some (Command OP_PARALLEL s c1 c2)) p) = Return v"
    if r: "fst (parse_command w SHELL_EXIT (Some (Command OP_PARALLEL s c1 c2)) p) = Return v" for v f
    using parallel_parent [of w p f SHELL_EXIT s c1 c2] parallel_returns [OF r] r by simp
  have c: "ret w (clock p) < 0 \<longrightarrow>
      fst (parse_command w SHELL_EXIT (Some (Command OP_PARALLEL s c1 c2)) p) = Return 1 \<and>
      since p (snd (parse_command w SHELL_EXIT (Some (Command OP_PARALLEL s c1 c2)) p)) =
        [EFork (- 1), EPrintf ''Probles with fork'']"
    using parallel_first_fork_fails [of w p SHELL_EXIT s c1 c2] by blast
  show ?thesis
    using a b c parallel_failures [of w p SHELL_EXIT s c1 c2] by blast
qed

text \<open>Children 5 and 6 that end with exit codes 1 and 2; a first \<open>fork\<close> that fails; and
  a second \<open>waitpid\<close> that fails.\<close>

theorem parallel_status_witness:
  "parse_command (script [5, 6, 0, 0] [0, 0, 256, 512]) (- 100)
      (Some (Command OP_PARALLEL None (simple ''false'' []) (simple ''true'' []))) p0 =
     (Return 0, p0\<lparr>trace := [EFork 5, EFork 6, EWaitpid 5 5 (Some 256), EWaitpid 6 6 (Some 512)],
                    clock := 4\<rparr>) \<and>
   fst (parse_command (script [5, 6, 0, 0] [0, 0, 256, 512]\<lparr>wstat := \<lambda>n. 0\<rparr>) (- 100)
      (Some (Command OP_PARALLEL None (simple ''false'' []) (simple ''true'' []))) p0) = Return 0 \<and>
   ret (script [- 1] []) (clock p0) < 0 \<and>
   parse_command (script [- 1] []) (- 100)
      (Some (Command OP_PARALLEL None (simple ''false'' []) (simple ''true'' []))) p0 =
     (Return 1, p0\<lparr>trace := [EFork (- 1), EPrintf ''Probles with fork''], clock := 1\<rparr>) \<and>
   0 < ret (script [5, 6, 0, - 1] [0, 0, 256]) (clock p0) \<and>
   0 < ret (script [5, 6, 0, - 1] [0, 0, 256]) (Suc (clock p0)) \<and>
   0 \<le> ret (script [5, 6, 0, - 1] [0, 0, 256]) (Suc (Suc (clock p0))) \<and>
   ret (script [5, 6, 0, - 1] [0, 0, 256]) (Suc (Suc (Suc (clock p0)))) < 0 \<and>
   parse_command (script [5, 6, 0, - 1] [0, 0, 256]) (- 100)
      (Some (Command OP_PARALLEL None (simple ''false'' []) (simple ''true'' []))) p0 =
     (Return 1, p0\<lparr>trace := [EFork 5, EFork 6, EWaitpid 5 5 (Some 256), EWaitpid 6 (- 1) None,
                               EPrintf (''waitpid error'' @ NL)], clock := 4\<rparr>)"
proof -
  have e1: "parse_command (script [5, 6, 0, 0] [0, 0, 256, 512]) (- 100)
      (Some (Command OP_PARALLEL None (simple ''false'' []) (simple ''true'' []))) p0 =
     (Return 0, p0\<lparr>trace := [EFork 5, EFork 6, EWaitpid 5 5 (Some 256), EWaitpid 6 6 (Some 512)],
                    clock := 4\<rparr>)"
    by (simp add: eval_defs sys_defs Let_def)
  have e2: "fst (parse_command (script [5, 6, 0, 0] [0, 0, 256, 512]\<lparr>wstat := \<lambda>n. 0\<rparr>) (- 100)
      (Some (Command OP_PARALLEL None (simple ''false'' []) (simple ''true'' []))) p0) = Return 0"
    using parallel_status [of "script [5, 6, 0, 0] [0, 0, 256, 512]" "- 100" None
            "simple ''false'' []" "simple ''true'' []" p0] e1
    by (metis fst_conv)
  have h3: "ret (script [- 1] []) (clock p0) < 0"
    by (simp add: script_def p0_def)
  have e3: "parse_command (script [- 1] []) (- 100)
      (Some (Command OP_PARALLEL None (simple ''false'' []) (simple ''true'' []))) p0 =
     (Return 1, p0\<lparr>trace := [EFork (- 1), EPrintf ''Probles with fork''], clock := 1\<rparr>)"
    by (simp add: eval_defs sys_defs Let_def)
  have h4: "0 < ret (script [5, 6, 0, - 1] [0, 0, 256]) (clock p0) \<and>
   0 < ret (script [5, 6, 0, - 1] [0, 0, 256]) (Suc (clock p0)) \<and>
   0 \<le> ret (script [5, 6, 0, - 1] [0, 0, 256]) (Suc (Suc (clock p0))) \<and>
   ret (script [5, 6, 0, - 1] [0, 0, 256]) (Suc (Suc (Suc (clock p0)))) < 0"
    by (simp add: script_def p0_def)
  have e4: "parse_command (script [5, 6, 0, - 1] [0, 0, 256]) (- 100)
      (Some (Command OP_PARALLEL None (simple ''false'' []) (simple ''true'' []))) p0 =
     (Return 1, p0\<lparr>trace := [EFork 5, EFork 6, EWaitpid 5 5 (Some 256), EWaitpid 6 (- 1) None,
                               EPrintf (''waitpid error'' @ NL)], clock := 4\<rparr>)"
    by (simp add: eval_defs sys_defs Let_def)
  show ?thesis using e1 e2 h3 e3 h4 e4 by blast
qed

section \<open>Pipe\<close>

lemma pipe_cases:
  "(\<exists>l r a b s1 s2. 0 < l \<and> 0 < r \<and>
      since p (snd (parse_command w SHELL_EXIT (Some (Command OP_PIPE s c1 c2)) p)) =
        [EPipe 0, EFork l, EFork r, EClose a, EClose b,
         EWaitpid l l (Some s1), EWaitpid r r (Some s2)] \<and>
      fst (parse_command w SHELL_EXIT (Some (Command OP_PIPE s c1 c2)) p) =
        Return (if s2 = 0 then 0 else 1)) \<or>
   (fst (parse_command w SHELL_EXIT (Some (Command OP_PIPE s c1 c2)) p) \<noteq> Return 0 \<and>
    (\<forall>l r a b s1 s2. 0 < l \<longrightarrow> 0 < r \<longrightarrow>
      since p (snd (parse_command w SHELL_EXIT (Some (Command OP_PIPE s c1 c2)) p)) \<noteq>
        [EPipe 0, EFork l, EFork r, EClose a, EClose b,
         EWaitpid l l (Some s1), EWaitpid r r (Some s2)]))"
proof -
  obtain r0 fd p0 where pi: "sys_pipe w p = (r0, fd, p0)" by (cases "sys_pipe w p")
  obtain l p1 where f1: "sys_fork w p0 = (l, p1)" by (cases "sys_fork w p0")
  obtain r p2 where f2: "sys_fork w p1 = (r, p2)" by (cases "sys_fork w p1")
  obtain d1 q1 where d1: "sys_dup2 w (snd fd) STDOUT_FILENO (sys_close (fst fd) p1) = (d1, q1)"
    by (cases "sys_dup2 w (snd fd) STDOUT_FILENO (sys_close (fst fd) p1)")
  obtain d2 q2 where d2: "sys_dup2 w (fst fd) STDIN_FILENO (sys_close (snd fd) p2) = (d2, q2)"
    by (cases "sys_dup2 w (fst fd) STDIN_FILENO (sys_close (snd fd) p2)")
  show ?thesis
  proof (cases "r0 < 0")
    case True
    then show ?thesis using pi
      by (auto simp: and_then_def sys_defs since_def Let_def split: if_splits)
  next
    case False
    note r0 = False
    have t: "trace p0 = trace p @ [EPipe 0]"
      using pi r0 by (auto simp: sys_defs Let_def split: if_splits)
    consider (fail) "l < 0" | (child) "l = 0" | (parent) "0 < l" by linarith
    then show ?thesis
    proof cases
      case fail
      then show ?thesis using pi f1 r0
        by (auto simp: and_then_def sys_defs since_def Let_def split: if_splits)
    next
      case child
      have t1: "trace q1 = trace p @ [EPipe 0, EFork 0, EClose (fst fd), EDup2 (snd fd) STDOUT_FILENO d1]"
        using f1 child t d1 by (auto simp: sys_defs Let_def split: if_splits)
      obtain evs where e: "since p (snd (parse_command w SHELL_EXIT c1 q1)) =
          [EPipe 0, EFork 0, EClose (fst fd), EDup2 (snd fd) STDOUT_FILENO d1] @ evs"
        using since_child [OF t1 grows_parse_command(1)] by blast
      show ?thesis
      proof (cases "d1 < 0")
        case True
        then show ?thesis using child pi f1 d1 r0 t1
          by (auto simp: split_beta and_then_def since_def sys_close_def sys_printf_def emit_def tick_def)
      next
        case False
        then show ?thesis using child pi f1 d1 r0 e
          by (auto simp: split_beta and_then_Exit_then)
      qed
    next
      case parent
      note l = parent
      have t0: "trace p1 = trace p @ [EPipe 0, EFork l]"
        using f1 l t by (auto simp: sys_defs Let_def split: if_splits)
      consider (fail2) "r < 0" | (child2) "r = 0" | (parent2) "0 < r" by linarith
      then show ?thesis
      proof cases
        case fail2
        then show ?thesis using l pi r0 f1 f2
          by (auto simp: and_then_def sys_defs since_def Let_def split: if_splits)
      next
        case child2
        have t1: "trace q2 = trace p @ [EPipe 0, EFork l, EFork 0, EClose (snd fd), EDup2 (fst fd) STDIN_FILENO d2]"
          using f2 child2 t0 d2 by (auto simp: sys_defs Let_def split: if_splits)
        obtain evs where e: "since p (snd (parse_command w SHELL_EXIT c2 q2)) =
            [EPipe 0, EFork l, EFork 0, EClose (snd fd), EDup2 (fst fd) STDIN_FILENO d2] @ evs"
          using since_child [OF t1 grows_parse_command(1)] by blast
        show ?thesis
        proof (cases "d2 < 0")
          case True
          then show ?thesis using child2 l pi f1 f2 d2 r0 t1
            by (auto simp: split_beta and_then_def since_def sys_close_def sys_printf_def emit_def tick_def)
        next
          case False
          then show ?thesis using child2 l pi f1 f2 d2 r0 e
            by (auto simp: split_beta and_then_Exit_then)
        qed
      next
        case parent2
        show ?thesis
        proof (cases "ret w (Suc (Suc (Suc (Suc (Suc (clock p)))))) < 0 \<or>
                      ret w (Suc (Suc (Suc (Suc (Suc (Suc (clock p))))))) < 0")
          case True
          show ?thesis
            apply (rule disjI2)
            using True parent2 l pi r0 f1 f2
            by (auto simp: split_beta and_then_def sys_defs since_def Let_def split: if_splits)
        next
          case False
          show ?thesis
            apply (rule disjI1)
            apply (rule exI [of _ "ret w (Suc (clock p))"])
            apply (rule exI [of _ "ret w (Suc (Suc (clock p)))"])
            apply (rule exI [of _ "fst (pfds w (clock p))"])
            apply (rule exI [of _ "snd (pfds w (clock p))"])
            apply (rule exI [of _ "wstat w (Suc (Suc (Suc (Suc (Suc (clock p))))))"])
            apply (rule exI [of _ "wstat w (Suc (Suc (Suc (Suc (Suc (Suc (clock p)))))))"])
            using False parent2 l pi r0 f1 f2
            by (auto simp: split_beta and_then_def sys_defs since_def Let_def split: if_splits)
        qed
      qed
    qed
  qed
qed

lemma pipe_zero_iff:
  "(fst (parse_command w SHELL_EXIT (Some (Command OP_PIPE s c1 c2)) p) = Return 0) =
     (\<exists>l r a b s1. 0 < l \<and> 0 < r \<and>
        since p (snd (parse_command w SHELL_EXIT (Some (Command OP_PIPE s c1 c2)) p)) =
          [EPipe 0, EFork l, EFork r, EClose a, EClose b,
           EWaitpid l l (Some s1), EWaitpid r r (Some 0)])"
  using pipe_cases [of p w SHELL_EXIT s c1 c2]
  apply (elim disjE exE conjE)
   apply (rule iffI)
  subgoal for l r a b s1 s2 by (cases "s2 = 0") auto
  subgoal for l r a b s1 s2 by (cases "s2 = 0") auto
  apply blast
  done

lemma pipe_right_status:
  assumes "0 < l" and "0 < r"
    and "since p (snd (parse_command w SHELL_EXIT (Some (Command OP_PIPE s c1 c2)) p)) =
          [EPipe 0, EFork l, EFork r, EClose a, EClose b,
           EWaitpid l l (Some s1), EWaitpid r r (Some s2)]"
  shows "fst (parse_command w SHELL_EXIT (Some (Command OP_PIPE s c1 c2)) p) =
           Return (if s2 = 0 then 0 else 1)"
  using pipe_cases [of p w SHELL_EXIT s c1 c2] assms
  apply (elim disjE exE conjE)
   apply simp
  apply blast
  done

lemma pipe_failures:
  "(ret w (clock p) < 0 \<longrightarrow>
      fst (parse_command w SHELL_EXIT (Some (Command OP_PIPE s c1 c2)) p) = Return 1) \<and>
   (0 \<le> ret w (clock p) \<and> ret w (Suc (clock p)) < 0 \<longrightarrow>
      fst (parse_command w SHELL_EXIT (Some (Command OP_PIPE s c1 c2)) p) = Return 1) \<and>
   (0 \<le> ret w (clock p) \<and> 0 < ret w (Suc (clock p)) \<and> ret w (Suc (Suc (clock p))) < 0 \<longrightarrow>
      fst (parse_command w SHELL_EXIT (Some (Command OP_PIPE s c1 c2)) p) = Return 1) \<and>
   (0 \<le> ret w (clock p) \<and> 0 < ret w (Suc (clock p)) \<and> 0 < ret w (Suc (Suc (clock p))) \<and>
    (ret w (Suc (Suc (Suc (Suc (Suc (clock p)))))) < 0 \<or>
     ret w (Suc (Suc (Suc (Suc (Suc (Suc (clock p))))))) < 0) \<longrightarrow>
      fst (parse_command w SHELL_EXIT (Some (Command OP_PIPE s c1 c2)) p) = Return 1)"
  by (auto simp: and_then_def sys_defs Let_def split_beta)

text \<open>
  \<open>false | true\<close>: the left branch is reported as ended with exit code 1 (wait status
  256), the right one with 0, and the node returns 0. The last part follows the left
  branch's own process: it runs \<open>false\<close> as child 20, gets its code 1, and exits
  with 1.
\<close>

theorem pipe_left_status_counterexample:
  "parse_command (script [0, 10, 11, 0, 0, 0, 0] [0, 0, 0, 0, 0, exited_status 1, exited_status 0]) (- 100)
      (Some (Command OP_PIPE None (simple ''false'' []) (simple ''true'' []))) p0 =
     (Return 0, p0\<lparr>trace := [EPipe 0, EFork 10, EFork 11, EClose 3, EClose 4,
                               EWaitpid 10 10 (Some 256), EWaitpid 11 11 (Some 0)],
                    clock := 7\<rparr>) \<and>
   WIFEXITED 256 \<and> WEXITSTATUS 256 = 1 \<and>
   parse_command (script [0, 0, 0, 0, 20, 0] [0, 0, 0, 0, 0, exited_status 1]) (- 100)
      (Some (Command OP_PIPE None (simple ''false'' []) (simple ''true'' []))) p0 =
     (Exit 1, p0\<lparr>trace := [EPipe 0, EFork 0, EClose 3, EDup2 4 1 1, EFork 20,
                             EWaitpid 20 20 (Some 256)],
                  clock := 6, depth := 1\<rparr>)"
  by (simp add: eval_defs sys_defs Let_def exited_status_def)

text \<open>
  C1, as amended. A Pipe node evaluates to 0 exactly when what it did is: create the
  pipe, fork both branches, close both ends, wait for the left branch and then for the
  right one, all succeeding, with a wait status of 0 for the right branch. Once both
  branches are created and joined, the status is 0 or 1 by the right branch's wait
  status alone; the left branch's status is read into the same variable and
  overwritten. When creating the pipe, a \<open>fork\<close> or a \<open>waitpid\<close> fails, the node
  returns 1.
\<close>

theorem pipe_status:
  "((fst (parse_command w SHELL_EXIT (Some (Command OP_PIPE s c1 c2)) p) = Return 0) =
     (\<exists>l r a b s1. 0 < l \<and> 0 < r \<and>
        since p (snd (parse_command w SHELL_EXIT (Some (Command OP_PIPE s c1 c2)) p)) =
          [EPipe 0, EFork l, EFork r, EClose a, EClose b,
           EWaitpid l l (Some s1), EWaitpid r r (Some 0)])) \<and>
   (\<forall>l r a b s1 s2. 0 < l \<longrightarrow> 0 < r \<longrightarrow>
      since p (snd (parse_command w SHELL_EXIT (Some (Command OP_PIPE s c1 c2)) p)) =
        [EPipe 0, EFork l, EFork r, EClose a, EClose b,
         EWaitpid l l (Some s1), EWaitpid r r (Some s2)] \<longrightarrow>
      fst (parse_command w SHELL_EXIT (Some (Command OP_PIPE s c1 c2)) p) =
        Return (if s2 = 0 then 0 else 1)) \<and>
   (ret w (clock p) < 0 \<longrightarrow>
      fst (parse_command w SHELL_EXIT (Some (Command OP_PIPE s c1 c2)) p) = Return 1) \<and>
   (0 \<le> ret w (clock p) \<and> ret w (Suc (clock p)) < 0 \<longrightarrow>
      fst (parse_command w SHELL_EXIT (Some (Command OP_PIPE s c1 c2)) p) = Return 1) \<and>
   (0 \<le> ret w (clock p) \<and> 0 < ret w (Suc (clock p)) \<and> ret w (Suc (Suc (clock p))) < 0 \<longrightarrow>
      fst (parse_command w SHELL_EXIT (Some (Command OP_PIPE s c1 c2)) p) = Return 1) \<and>
   (0 \<le> ret w (clock p) \<and> 0 < ret w (Suc (clock p)) \<and> 0 < ret w (Suc (Suc (clock p))) \<and>
    (ret w (Suc (Suc (Suc (Suc (Suc (clock p)))))) < 0 \<or>
     ret w (Suc (Suc (Suc (Suc (Suc (Suc (clock p))))))) < 0) \<longrightarrow>
      fst (parse_command w SHELL_EXIT (Some (Command OP_PIPE s c1 c2)) p) = Return 1)"
  using pipe_zero_iff [of w SHELL_EXIT s c1 c2 p] pipe_right_status [of _ _ p w SHELL_EXIT s c1 c2]
    pipe_failures [of w p SHELL_EXIT s c1 c2]
  by blast

text \<open>\<open>true | false\<close>, the right branch ends with exit code 1: the node returns 1.\<close>

theorem pipe_status_witness:
  "(0::int) < 10 \<and> (0::int) < 11 \<and>
   since p0 (snd (parse_command (script [0, 10, 11, 0, 0, 0, 0] [0, 0, 0, 0, 0, 0, exited_status 1])
      (- 100) (Some (Command OP_PIPE None (simple ''true'' []) (simple ''false'' []))) p0)) =
     [EPipe 0, EFork 10, EFork 11, EClose 3, EClose 4,
      EWaitpid 10 10 (Some 0), EWaitpid 11 11 (Some 256)] \<and>
   fst (parse_command (script [0, 10, 11, 0, 0, 0, 0] [0, 0, 0, 0, 0, 0, exited_status 1])
      (- 100) (Some (Command OP_PIPE None (simple ''true'' []) (simple ''false'' []))) p0) = Return 1"
  using pipe_status [of "script [0, 10, 11, 0, 0, 0, 0] [0, 0, 0, 0, 0, 0, exited_status 1]" "- 100"
          None "simple ''true'' []" "simple ''false'' []" p0]
  by (simp add: eval_defs sys_defs Let_def exited_status_def)

section \<open>Events of a simple command, stage by stage\<close>

lemmas child_defs = simple_child_def child_stdin_def child_stdout_def child_stderr_def child_exec_def
  simple_parent_def get_word_def get_argv_def STDIN_FILENO_def STDOUT_FILENO_def STDERR_FILENO_def

lemma adds_refl: "adds P p p"
  by (simp add: adds_def)

lemma adds_trans: "adds P p p1 \<Longrightarrow> adds P p1 p2 \<Longrightarrow> adds P p p2"
  by (auto simp: adds_def)

lemma adds_since: "adds P p p' \<Longrightarrow> list_all P (since p p')"
  by (auto simp: adds_def since_def)

lemma adds_simple_child:
  assumes a: "\<And>q. adds P q (snd (child_stdin w s q))"
    and b: "\<And>q. adds P q (snd (snd (child_stdout w s q)))"
    and c: "\<And>q fd. adds P q (snd (child_stderr w s fd q))"
    and d: "\<And>q. adds P q (snd (child_exec w s q))"
  shows "adds P p (snd (simple_child w s p))"
proof -
  obtain x p1 where 1: "child_stdin w s p = (x, p1)" by (cases "child_stdin w s p")
  obtain y fd p2 where 2: "child_stdout w s p1 = (y, fd, p2)" by (cases "child_stdout w s p1")
  obtain z p3 where 3: "child_stderr w s fd p2 = (z, p3)" by (cases "child_stderr w s fd p2")
  have g1: "adds P p p1" using a [of p] 1 by simp
  have g2: "adds P p p2" using adds_trans [OF g1 b [of p1]] 2 by simp
  have g3: "adds P p p3" using adds_trans [OF g2 c [of p2 fd]] 3 by simp
  have g4: "adds P p (snd (child_exec w s p3))" using adds_trans [OF g3 d] .
  show ?thesis using g1 g2 g3 g4
    by (simp add: simple_child_def 1 2 3 split: option.splits)
qed

lemma adds_parse_simple_external:
  assumes cd: "verb s \<noteq> ''cd''"
    and f: "\<And>q. adds P q (snd (sys_fork w q))"
    and e: "\<And>q var val. adds P q (snd (sys_setenv w var val q))"
    and ch: "\<And>q. adds P q (snd (simple_child w s q))"
    and pa: "\<And>q pid. adds P q (snd (simple_parent w pid q))"
    and pr: "\<And>q msg. adds P q (sys_printf msg q)"
  shows "adds P p (snd (parse_simple w SHELL_EXIT (Some s) p))"
proof -
  have 1: "adds P p (snd (simple_child w s (snd (sys_fork w p))))"
    using adds_trans [OF f ch] .
  have 2: "adds P p (snd (simple_parent w pid (snd (sys_fork w p))))" for pid
    using adds_trans [OF f pa] .
  have 3: "adds P p (sys_printf m (snd (sys_fork w p)))" for m
    using adds_trans [OF f pr] .
  show ?thesis
    using cd 1 2 3 e [of p] adds_refl [of P p]
    by (simp add: parse_simple_def Let_def split_beta split: option.splits prod.splits)
qed

section \<open>Errors in the child of an external command\<close>

lemma child_exec_failure_exits:
  "ret w (clock p) < 0 \<Longrightarrow> fst (child_exec w s p) = Exit (- 1)"
  by (simp add: child_exec_def sys_defs Let_def)

lemma child_open_failure_returns:
  assumes "verb s \<noteq> ''cd''" "verb s \<noteq> ''exit''" "verb s \<noteq> ''quit''"
      "CHR ''='' \<notin> set (verb s)"
    and "ret w (clock p) = 0" and "inp s = Some file" and "ret w (Suc (clock p)) < 0"
  shows "parse_simple w SHELL_EXIT (Some s) p =
           (Return 1, p\<lparr>trace := trace p @ [EFork 0, EOpen file [O_RDONLY] (- 1),
                                              EPrintf (''Open error'' @ NL)],
                         clock := Suc (Suc (clock p)), depth := Suc (depth p)\<rparr>)"
  using assms by (simp add: parse_simple_def child_defs sys_defs Let_def)

text \<open>
  C3. \<open>cat < missing\<close>, followed in the child (\<open>fork\<close> returns 0) with an \<open>open\<close> that
  fails: \<open>parse_simple\<close> does not end the process, it returns 1 in it. Under a
  Sequential node the same child (depth 1) then goes on with the right operand: it
  forks \<open>echo hi\<close> as its own child 9, waits for it and returns 0 to the caller of
  \<open>parse_command\<close>. (When \<open>execvp\<close> fails the child does end, with \<open>exit(-1)\<close>:
  \<open>child_exec_failure_exits\<close>.)
\<close>

theorem child_returns_after_open_error:
  "parse_simple (script [0, - 1] []) (- 100)
      (Some \<lparr>verb = ''cat'', params = [], inp = Some ''missing'', out = None, err = None,
             io_flags = 0\<rparr>) p0 =
     (Return 1, p0\<lparr>trace := [EFork 0, EOpen ''missing'' [O_RDONLY] (- 1),
                               EPrintf (''Open error'' @ NL)],
                    clock := 2, depth := 1\<rparr>) \<and>
   parse_command (script [0, - 1, 9, 0] []) (- 100)
      (Some (Command OP_SEQUENTIAL None
         (Some (Command OP_NONE
            (Some \<lparr>verb = ''cat'', params = [], inp = Some ''missing'', out = None, err = None,
                   io_flags = 0\<rparr>) None None))
         (simple ''echo'' [''hi'']))) p0 =
     (Return 0, p0\<lparr>trace := [EFork 0, EOpen ''missing'' [O_RDONLY] (- 1),
                               EPrintf (''Open error'' @ NL), EFork 9, EWaitpid 9 9 (Some 0)],
                    clock := 4, depth := 1\<rparr>)"
  by (simp add: eval_defs sys_defs Let_def)

section \<open>Variable assignment\<close>

text \<open>The two \<open>strtok\<close> calls on some verbs: the name and value found, if any.\<close>

lemma strtok_eq_examples:
  "strtok_eq ''a=b'' = (Some ''a'', ''b'')"
  "strtok_eq ''b'' = (Some ''b'', [])"
  "strtok_eq ''a='' = (Some ''a'', [])"
  "strtok_eq ''=b'' = (Some ''b'', [])"
  "strtok_eq ''='' = (None, [])"
  "strtok_eq [] = (None, [])"
  "strtok_eq ''=a=b'' = (Some ''a'', ''b'')"
  by (simp_all add: strtok_eq_def)

lemma assignment_in_process:
  assumes "verb s \<noteq> ''cd''" "verb s \<noteq> ''exit''" "verb s \<noteq> ''quit''"
    and "CHR ''='' \<in> set (verb s)"
  shows "(\<exists>r. fst (parse_simple w SHELL_EXIT (Some s) p) = Return r) \<and>
         depth (snd (parse_simple w SHELL_EXIT (Some s) p)) = depth p \<and>
         (since p (snd (parse_simple w SHELL_EXIT (Some s) p)) = [] \<or>
          (\<exists>var val r. since p (snd (parse_simple w SHELL_EXIT (Some s) p)) = [ESetenv var val r]))"
  using assms
  by (simp add: parse_simple_def sys_defs since_def Let_def split: prod.splits option.splits)

lemma assignment_without_two_tokens:
  assumes "verb s \<noteq> ''cd''" "verb s \<noteq> ''exit''" "verb s \<noteq> ''quit''"
    and "CHR ''='' \<in> set (verb s)"
    and "fst (strtok_eq (verb s)) = None \<or> fst (strtok_eq (snd (strtok_eq (verb s)))) = None"
  shows "parse_simple w SHELL_EXIT (Some s) p = (Return 1, p)"
  using assms
  by (auto simp: parse_simple_def Let_def split: prod.splits option.splits)

text \<open>
  C10. The verb \<open>=a=b\<close> has an empty name before its first \<open>=\<close>. \<open>strtok\<close> skips the
  leading delimiter, so both tokens are found: \<open>setenv("a", "b", 1)\<close> is called, the
  environment changes and the status is that of \<open>setenv\<close>, 0. (No child is forked and
  nothing is executed for any verb with an \<open>=\<close>: \<open>assignment_in_process\<close>.)
\<close>

theorem assignment_with_empty_name_sets_variable:
  "parse_simple (script [0] []) (- 100)
      (Some \<lparr>verb = ''=a=b'', params = [], inp = None, out = None, err = None, io_flags = 0\<rparr>) p0 =
     (Return 0, p0\<lparr>env := [''a'' \<mapsto> ''b''], trace := [ESetenv ''a'' ''b'' 0], clock := 1\<rparr>)"
  by (simp add: eval_defs sys_defs Let_def)

section \<open>Open modes of stdout and stderr\<close>

lemma no_other_open_stages:
  "adds (\<lambda>e. \<not> opens_otherwise s e) q (snd (child_stdin w s q))"
  "adds (\<lambda>e. \<not> opens_otherwise s e) q (snd (snd (child_stdout w s q)))"
  "adds (\<lambda>e. \<not> opens_otherwise s e) q (snd (child_stderr w s fd q))"
  "adds (\<lambda>e. \<not> opens_otherwise s e) q (snd (child_exec w s q))"
  "adds (\<lambda>e. \<not> opens_otherwise s e) q (snd (simple_parent w pid q))"
  "adds (\<lambda>e. \<not> opens_otherwise s e) q (snd (sys_fork w q))"
  "adds (\<lambda>e. \<not> opens_otherwise s e) q (snd (sys_setenv w var val q))"
  "adds (\<lambda>e. \<not> opens_otherwise s e) q (sys_printf msg q)"
  by (simp_all add: adds_def child_defs sys_defs write_flags_def Let_def split: option.splits)

text \<open>The two mode tests, lines 184-187 and 214-217: the same expression.\<close>

lemma stdout_open_mode:
  assumes "out s = Some path"
  shows "\<exists>r evs. since q (snd (snd (child_stdout w s q))) =
           EOpen path (if io_flags s > 0 then [O_WRONLY, O_CREAT, O_APPEND]
                       else [O_WRONLY, O_CREAT, O_TRUNC]) r # evs"
  using assms by (simp add: child_stdout_def sys_defs since_def Let_def)

lemma stderr_open_mode:
  assumes "err s = Some e" and "get_word (out s) \<noteq> e \<or> fdout < 0"
  shows "\<exists>r evs. since q (snd (child_stderr w s fdout q)) =
           EOpen e (if io_flags s > 0 then [O_WRONLY, O_CREAT, O_APPEND]
                    else [O_WRONLY, O_CREAT, O_TRUNC]) r # evs"
  using assms by (auto simp: child_stderr_def sys_defs since_def get_word_def Let_def split: option.splits)


text \<open>Whatever a simple command other than \<open>cd\<close> opens, it opens read-only or in the
  one mode that \<open>io_flags > 0\<close> selects.\<close>

lemma redirect_modes_shared:
  assumes "verb s \<noteq> ''cd''"
  shows "\<forall>path fl r. EOpen path fl r \<in> set (since p (snd (parse_simple w SHELL_EXIT (Some s) p))) \<longrightarrow>
           fl = [O_RDONLY] \<or>
           fl = (if io_flags s > 0 then [O_WRONLY, O_CREAT, O_APPEND] else [O_WRONLY, O_CREAT, O_TRUNC])"
proof -
  have ch: "adds (\<lambda>e. \<not> opens_otherwise s e) q (snd (simple_child w s q))" for q
    by (rule adds_simple_child) (rule no_other_open_stages)+
  have "adds (\<lambda>e. \<not> opens_otherwise s e) p (snd (parse_simple w SHELL_EXIT (Some s) p))"
    by (rule adds_parse_simple_external [OF assms no_other_open_stages(6)
          no_other_open_stages(7) ch no_other_open_stages(5) no_other_open_stages(8)])
  then have "list_all (\<lambda>e. \<not> opens_otherwise s e) (since p (snd (parse_simple w SHELL_EXIT (Some s) p)))"
    by (rule adds_since)
  then have "\<forall>e \<in> set (since p (snd (parse_simple w SHELL_EXIT (Some s) p))). \<not> opens_otherwise s e"
    by (simp add: list_all_iff)
  then show ?thesis by (fastforce simp: write_flags_def)
qed

text \<open>
  C5. \<open>ls > o.txt 2>> e.txt\<close>, append selected for stderr alone (\<open>io_flags\<close> 2),
  followed in the child with all calls succeeding: the stdout target \<open>o.txt\<close> is opened
  with \<open>O_APPEND\<close> too. With append selected for stdout alone (\<open>io_flags\<close> 1) the
  stderr target is opened with \<open>O_APPEND\<close> too. With \<open>io_flags\<close> 0 both are opened
  with \<open>O_TRUNC\<close>.
\<close>

theorem stderr_append_flag_appends_stdout:
  "parse_simple (script [0, 5, 0, 6, 0, 0] []) (- 100)
      (Some \<lparr>verb = ''ls'', params = [], inp = None, out = Some ''o.txt'', err = Some ''e.txt'',
             io_flags = 2\<rparr>) p0 =
     (Exec ''ls'' [''ls''],
      p0\<lparr>trace := [EFork 0, EOpen ''o.txt'' [O_WRONLY, O_CREAT, O_APPEND] 5, EDup2 5 1 1,
                     EOpen ''e.txt'' [O_WRONLY, O_CREAT, O_APPEND] 6, EDup2 6 2 2,
                     EExecvp ''ls'' [''ls''] 0],
          clock := 6, depth := 1\<rparr>) \<and>
   parse_simple (script [0, 5, 0, 6, 0, 0] []) (- 100)
      (Some \<lparr>verb = ''ls'', params = [], inp = None, out = Some ''o.txt'', err = Some ''e.txt'',
             io_flags = 1\<rparr>) p0 =
     (Exec ''ls'' [''ls''],
      p0\<lparr>trace := [EFork 0, EOpen ''o.txt'' [O_WRONLY, O_CREAT, O_APPEND] 5, EDup2 5 1 1,
                     EOpen ''e.txt'' [O_WRONLY, O_CREAT, O_APPEND] 6, EDup2 6 2 2,
                     EExecvp ''ls'' [''ls''] 0],
          clock := 6, depth := 1\<rparr>) \<and>
   parse_simple (script [0, 5, 0, 6, 0, 0] []) (- 100)
      (Some \<lparr>verb = ''ls'', params = [], inp = None, out = Some ''o.txt'', err = Some ''e.txt'',
             io_flags = 0\<rparr>) p0 =
     (Exec ''ls'' [''ls''],
      p0\<lparr>trace := [EFork 0, EOpen ''o.txt'' [O_WRONLY, O_CREAT, O_TRUNC] 5, EDup2 5 1 1,
                     EOpen ''e.txt'' [O_WRONLY, O_CREAT, O_TRUNC] 6, EDup2 6 2 2,
                     EExecvp ''ls'' [''ls''] 0],
          clock := 6, depth := 1\<rparr>)"
  by (simp add: eval_defs sys_defs Let_def)

section \<open>stderr to the path of stdout\<close>











section \<open>The cd built-in\<close>

lemma cd_redirect_keeps:
  assumes "cd_redirect w t p = (b, p')"
  shows "cwd p' = cwd p \<and> env p' = env p \<and> depth p' = depth p \<and>
         (\<exists>evs. trace p' = trace p @ evs \<and> list_all cd_redirect_event evs)"
  using assms by (auto simp: cd_redirect_def sys_defs Let_def split: option.splits if_splits)

lemma shell_cd_events: "adds cd_event p (snd (shell_cd w dir p))"
  by (simp add: adds_def shell_cd_def sys_defs Let_def split: option.splits)

lemma shell_cd_depth: "depth (snd (shell_cd w dir p)) = depth p"
  by (simp add: shell_cd_def sys_defs Let_def split: option.splits)

lemma shell_cd_failure:
  assumes "fst (shell_cd w dir p) = Return False"
  shows "cwd (snd (shell_cd w dir p)) = cwd p \<and> env (snd (shell_cd w dir p)) = env p"
  using assms by (auto simp: shell_cd_def sys_defs Let_def split: option.splits if_splits)

lemma shell_cd_first:
  "\<exists>r evs. since p (snd (shell_cd w (Some d) p)) = EChdir d r # evs"
  by (simp add: shell_cd_def sys_defs since_def Let_def split: option.splits)

lemma shell_cd_retry:
  assumes "ret w (clock p) < 0" and "0 \<le> ret w (Suc (clock p))"
    and "length (cwd p) + length d + 2 \<le> 1024"
  shows "\<exists>r evs. since p (snd (shell_cd w (Some d) p)) =
           EChdir d (- 1) # EGetcwd True # EChdir (cwd p @ ''/'' @ d) r # evs"
  using assms by (simp add: shell_cd_def sys_defs since_def Let_def)

lemma shell_cd_both_fail:
  assumes "ret w (clock p) < 0"
    and "ret w (Suc (clock p)) < 0 \<or> 1024 < length (cwd p) + 1 \<or>
         (length (cwd p) + length d + 2 \<le> 1024 \<and> ret w (Suc (Suc (clock p))) < 0)"
  shows "fst (shell_cd w (Some d) p) = Return False"
  using assms by (auto simp: shell_cd_def sys_defs since_def Let_def)

lemma shell_cd_no_retry:
  assumes "ret w (clock p) < 0" and "ret w (Suc (clock p)) < 0 \<or> 1024 < length (cwd p) + 1"
  shows "since p (snd (shell_cd w (Some d) p)) =
           [EChdir d (- 1), EGetcwd False, EPrintf (''Error getting current directory.'' @ NL)]"
  using assms by (auto simp: shell_cd_def sys_defs since_def Let_def)

lemma shell_cd_overflow:
  assumes "ret w (clock p) < 0" and "0 \<le> ret w (Suc (clock p))"
    and "length (cwd p) + 1 \<le> 1024" and "1024 < length (cwd p) + length d + 2"
  shows "fst (shell_cd w (Some d) p) = Overflow"
  using assms by (simp add: shell_cd_def sys_defs Let_def)

lemma cd_event_no_fork: "list_all cd_event xs \<Longrightarrow> EFork r \<notin> set xs"
  by (induction xs) auto


lemma cd_redirect_event_no_fork: "list_all cd_redirect_event xs \<Longrightarrow> EFork r \<notin> set xs"
  by (induction xs) auto

text \<open>
  \<open>cd docs\<close> when \<open>chdir\<close> fails and \<open>getcwd\<close> fails too: status 1 with no second
  \<open>chdir\<close>. And \<open>cd > /proc/x\<close>, no argument, when the target cannot be opened:
  status 1.
\<close>

theorem cd_counterexample:
  "parse_simple (script [- 1, - 1] []) (- 100)
      (Some \<lparr>verb = ''cd'', params = [''docs''], inp = None, out = None, err = None,
             io_flags = 0\<rparr>) p0 =
     (Return 1, p0\<lparr>trace := [EChdir ''docs'' (- 1), EGetcwd False,
                               EPrintf (''Error getting current directory.'' @ NL)],
                    clock := 2\<rparr>) \<and>
   parse_simple (script [- 1] []) (- 100)
      (Some \<lparr>verb = ''cd'', params = [], inp = None, out = Some ''/proc/x'', err = None,
             io_flags = 0\<rparr>) p0 =
     (Return 1, p0\<lparr>trace := [EOpen ''/proc/x'' [O_WRONLY, O_CREAT, O_TRUNC] (- 1),
                               EPrintf (''Open error'' @ NL)],
                    clock := 1\<rparr>)"
  by (simp add: eval_defs sys_defs Let_def)

text \<open>
  C7, as amended. A \<open>cd\<close> whose redirection blocks have passed, leaving the process
  as \<open>p3\<close> (which is the starting process when no target is declared). With no
  argument nothing more is done and the status is 0. With an argument \<open>d\<close> the first
  thing done is \<open>chdir(d)\<close>. When that fails, \<open>getcwd\<close> succeeds and the joined path
  fits the 1024-byte buffer, the next calls are \<open>getcwd\<close> and
  \<open>chdir(cwd/d)\<close>, for an absolute \<open>d\<close> as for a relative one. When the first
  \<open>chdir\<close> fails and then \<open>getcwd\<close> fails (refused, or the directory name does not fit
  the buffer) or the second \<open>chdir\<close> fails, the status is 1; when \<open>getcwd\<close> fails
  no second \<open>chdir\<close> is made. With status 1 the
  function has returned (the process goes on; 1 is the sentinel only if \<open>SHELL_EXIT\<close>
  is 1), and the working directory and the environment are those before the command.
  No \<open>cd\<close> ever forks.
\<close>

theorem cd_builtin:
  assumes cd: "verb s = ''cd''"
    and r1: "cd_redirect w (inp s) p = (True, p1)"
    and r2: "cd_redirect w (out s) p1 = (True, p2)"
    and r3: "cd_redirect w (err s) p2 = (True, p3)"
  shows "(params s = [] \<longrightarrow> parse_simple w SHELL_EXIT (Some s) p = (Return 0, p3)) \<and>
         (\<forall>d ds. params s = d # ds \<longrightarrow>
            (\<exists>r evs. since p3 (snd (parse_simple w SHELL_EXIT (Some s) p)) = EChdir d r # evs) \<and>
            (ret w (clock p3) < 0 \<and> 0 \<le> ret w (Suc (clock p3)) \<and>
             length (cwd p3) + length d + 2 \<le> 1024 \<longrightarrow>
               (\<exists>r evs. since p3 (snd (parse_simple w SHELL_EXIT (Some s) p)) =
                  EChdir d (- 1) # EGetcwd True # EChdir (cwd p3 @ ''/'' @ d) r # evs)) \<and>
            (ret w (clock p3) < 0 \<and>
             (ret w (Suc (clock p3)) < 0 \<or> 1024 < length (cwd p3) + 1 \<or>
              (length (cwd p3) + length d + 2 \<le> 1024 \<and> ret w (Suc (Suc (clock p3))) < 0)) \<longrightarrow>
               fst (parse_simple w SHELL_EXIT (Some s) p) = Return 1)) \<and>
         (fst (parse_simple w SHELL_EXIT (Some s) p) = Return 1 \<longrightarrow>
            cwd (snd (parse_simple w SHELL_EXIT (Some s) p)) = cwd p \<and>
            env (snd (parse_simple w SHELL_EXIT (Some s) p)) = env p) \<and>
         depth (snd (parse_simple w SHELL_EXIT (Some s) p)) = depth p \<and>
         (\<forall>r. EFork r \<notin> set (since p (snd (parse_simple w SHELL_EXIT (Some s) p)))) \<and>
         (\<forall>d ds. params s = d # ds \<longrightarrow> ret w (clock p3) < 0 \<longrightarrow>
            ret w (Suc (clock p3)) < 0 \<or> 1024 < length (cwd p3) + 1 \<longrightarrow>
            since p3 (snd (parse_simple w SHELL_EXIT (Some s) p)) =
              [EChdir d (- 1), EGetcwd False,
               EPrintf (''Error getting current directory.'' @ NL)])"
proof -
  define dir where "dir = (case params s of [] \<Rightarrow> None | d # _ \<Rightarrow> Some d)"
  obtain oc p4 where sc: "shell_cd w dir p3 = (oc, p4)" by (cases "shell_cd w dir p3")
  have ps: "parse_simple w SHELL_EXIT (Some s) p =
      (and_then oc (\<lambda>b. Return (if b then 0 else 1)), p4)"
    using cd r1 r2 r3 sc
    by (simp add: parse_simple_def dir_def and_then_def split: outcome.splits)
  have k1: "cwd p1 = cwd p" "env p1 = env p" "depth p1 = depth p"
    using cd_redirect_keeps [OF r1] by simp_all
  have k2: "cwd p2 = cwd p" "env p2 = env p" "depth p2 = depth p"
    using cd_redirect_keeps [OF r2] k1 by simp_all
  have k3: "cwd p3 = cwd p" "env p3 = env p" "depth p3 = depth p"
    using cd_redirect_keeps [OF r3] k2 by simp_all
  obtain e1 where e1: "trace p1 = trace p @ e1" "list_all cd_redirect_event e1"
    using cd_redirect_keeps [OF r1] by blast
  obtain e2 where e2: "trace p2 = trace p1 @ e2" "list_all cd_redirect_event e2"
    using cd_redirect_keeps [OF r2] by blast
  obtain e3 where e3: "trace p3 = trace p2 @ e3" "list_all cd_redirect_event e3"
    using cd_redirect_keeps [OF r3] by blast
  obtain e4 where e4: "trace p4 = trace p3 @ e4" "list_all cd_event e4"
    using shell_cd_events [of p3 w dir] sc by (auto simp: adds_def)
  have ev: "since p p4 = e1 @ e2 @ e3 @ e4"
    using e1 e2 e3 e4 by (simp add: since_def)
  have nofork: "\<forall>r. EFork r \<notin> set (since p p4)"
    unfolding ev
    using cd_redirect_event_no_fork [OF e1(2)] cd_redirect_event_no_fork [OF e2(2)]
      cd_redirect_event_no_fork [OF e3(2)] cd_event_no_fork [OF e4(2)] by simp
  have dep: "depth p4 = depth p"
    using shell_cd_depth [of w dir p3] sc k3 by simp
  have fail: "oc = Return False \<Longrightarrow> cwd p4 = cwd p \<and> env p4 = env p"
    using shell_cd_failure [of w dir p3] sc k3 by simp
  have ret1: "and_then oc (\<lambda>b. Return (if b then 0 else (1::int))) = Return 1 \<Longrightarrow> oc = Return False"
    by (cases oc) (auto simp: and_then_def split: if_splits)
  have none: "params s = [] \<Longrightarrow> oc = Return True \<and> p4 = p3"
    using sc by (simp add: dir_def shell_cd_def)
  have some: "params s = d # ds \<Longrightarrow> shell_cd w (Some d) p3 = (oc, p4)" for d ds
    using sc by (simp add: dir_def)
  show ?thesis
    unfolding ps fst_conv snd_conv
  proof (intro conjI allI impI)
    assume "params s = []"
    then show "(and_then oc (\<lambda>b. Return (if b then 0 else 1)), p4) = (Return 0, p3)"
      using none by (simp add: and_then_def)
  next
    fix d ds assume "params s = d # ds"
    then show "\<exists>r evs. since p3 p4 = EChdir d r # evs"
      using shell_cd_first [of p3 w d] some by simp
  next
    fix d ds assume "params s = d # ds"
      and "ret w (clock p3) < 0 \<and> 0 \<le> ret w (Suc (clock p3)) \<and>
             length (cwd p3) + length d + 2 \<le> 1024"
    then show "\<exists>r evs. since p3 p4 = EChdir d (- 1) # EGetcwd True # EChdir (cwd p3 @ ''/'' @ d) r # evs"
      using shell_cd_retry [of w p3 d] some by simp
  next
    fix d ds assume "params s = d # ds"
      and "ret w (clock p3) < 0 \<and>
             (ret w (Suc (clock p3)) < 0 \<or> 1024 < length (cwd p3) + 1 \<or>
              (length (cwd p3) + length d + 2 \<le> 1024 \<and> ret w (Suc (Suc (clock p3))) < 0))"
    then show "and_then oc (\<lambda>b. Return (if b then 0 else 1)) = Return 1"
      using shell_cd_both_fail [of w p3 d] some by (simp add: and_then_def)
  next
    assume "and_then oc (\<lambda>b. Return (if b then 0 else 1)) = Return (1::int)"
    then have "oc = Return False" by (rule ret1)
    then show "cwd p4 = cwd p" and "env p4 = env p" using fail by simp_all
  next
    show "depth p4 = depth p" by (rule dep)
  next
    fix r show "EFork r \<notin> set (since p p4)" using nofork by simp
  next
    fix d ds assume "params s = d # ds" and "ret w (clock p3) < 0"
      and "ret w (Suc (clock p3)) < 0 \<or> 1024 < length (cwd p3) + 1"
    then show "since p3 p4 =
        [EChdir d (- 1), EGetcwd False, EPrintf (''Error getting current directory.'' @ NL)]"
      using shell_cd_no_retry [of w p3 d] some by simp
  qed
qed

text \<open>\<open>cd docs\<close> from \<open>/home\<close>, both \<open>chdir\<close> calls failing; and \<open>cd\<close> alone.\<close>

theorem cd_builtin_witness:
  "cd_redirect (script [- 1, 0, - 1] []) None p0 = (True, p0) \<and>
   ret (script [- 1, 0, - 1] []) (clock p0) < 0 \<and>
   0 \<le> ret (script [- 1, 0, - 1] []) (Suc (clock p0)) \<and>
   length (cwd p0) + length ''docs'' + 2 \<le> 1024 \<and>
   ret (script [- 1, 0, - 1] []) (Suc (Suc (clock p0))) < 0 \<and>
   parse_simple (script [- 1, 0, - 1] []) (- 100)
      (Some \<lparr>verb = ''cd'', params = [''docs''], inp = None, out = None, err = None,
             io_flags = 0\<rparr>) p0 =
     (Return 1, p0\<lparr>trace := [EChdir ''docs'' (- 1), EGetcwd True, EChdir ''/home/docs'' (- 1),
                               EPrintf (''Error changing directory.'' @ NL)],
                    clock := 3\<rparr>) \<and>
   parse_simple (script [] []) (- 100)
      (Some \<lparr>verb = ''cd'', params = [], inp = None, out = None, err = None,
             io_flags = 0\<rparr>) p0 = (Return 0, p0)"
  using cd_builtin [of "\<lparr>verb = ''cd'', params = [''docs''], inp = None, out = None, err = None,
             io_flags = 0\<rparr>" "script [- 1, 0, - 1] []" p0 p0 p0 p0 "- 100"]
    cd_builtin [of "\<lparr>verb = ''cd'', params = [], inp = None, out = None, err = None,
             io_flags = 0\<rparr>" "script [] []" p0 p0 p0 p0 "- 100"]
  by (simp add: eval_defs sys_defs Let_def)

section \<open>Redirections of cd\<close>






end
